theory Spec2Isabelle
  imports Main
begin

section \<open>Strings, dictionaries and errors of the Python program\<close>

text \<open>
  A Python \<open>str\<close> is a sequence of Unicode code points, so a string is a list of
  code points (natural numbers), not a list of bytes.  Python has no character type:
  iterating a string yields strings of length one, and the keys of the letter tables
  are such strings.
\<close>

type_synonym codepoint = nat
type_synonym pystr = "codepoint list"

definition chars :: "pystr \<Rightarrow> pystr list" where
  "chars s = map (\<lambda>c. [c]) s"

text \<open>
  A \<open>dict\<close> is an association list in insertion order.  Subscription \<open>d[k]\<close> raises
  \<open>KeyError\<close> on a missing key, \<open>k in d\<close> tests membership, and \<open>d.get(k, default)\<close>
  never raises.
\<close>

datatype py_error = KeyError

type_synonym ('k, 'v) pydict = "('k \<times> 'v) list"

definition dict_contains :: "('k, 'v) pydict \<Rightarrow> 'k \<Rightarrow> bool" where
  "dict_contains d k = (k \<in> set (map fst d))"

definition dict_getitem :: "('k, 'v) pydict \<Rightarrow> 'k \<Rightarrow> py_error + 'v" where
  "dict_getitem d k = (case map_of d k of None \<Rightarrow> Inl KeyError | Some v \<Rightarrow> Inr v)"

definition dict_get :: "('k, 'v) pydict \<Rightarrow> 'k \<Rightarrow> 'v \<Rightarrow> 'v" where
  "dict_get d k dflt = (case map_of d k of None \<Rightarrow> dflt | Some v \<Rightarrow> v)"

subsection \<open>Whitespace: \<open>str.isspace\<close>, \<open>str.split()\<close>, \<open>str.strip()\<close>\<close>

text \<open>
  The code points for which \<open>str.isspace\<close> holds (Unicode 14, the database of
  Python 3.11): these are the separators of \<open>split()\<close> and what \<open>strip()\<close> removes.
\<close>

definition isspace :: "codepoint \<Rightarrow> bool" where
  "isspace c = (c \<in> set [0x9, 0xA, 0xB, 0xC, 0xD, 0x1C, 0x1D, 0x1E, 0x1F, 0x20, 0x85, 0xA0,
     0x1680, 0x2000, 0x2001, 0x2002, 0x2003, 0x2004, 0x2005, 0x2006, 0x2007, 0x2008,
     0x2009, 0x200A, 0x2028, 0x2029, 0x202F, 0x205F, 0x3000])"

text \<open>
  \<open>text.split()\<close> with no separator: one left-to-right scan; a run of whitespace ends the
  current token, and empty tokens are never produced.
\<close>

fun split_scan :: "pystr \<Rightarrow> pystr \<Rightarrow> pystr list" where
  "split_scan cur [] = (if cur = [] then [] else [cur])"
| "split_scan cur (c # cs) =
     (if isspace c then (if cur = [] then split_scan [] cs else cur # split_scan [] cs)
      else split_scan (cur @ [c]) cs)"

definition str_split :: "pystr \<Rightarrow> pystr list" where
  "str_split s = split_scan [] s"

definition str_strip :: "pystr \<Rightarrow> pystr" where
  "str_strip s = rev (dropWhile isspace (rev (dropWhile isspace s)))"

text \<open>
  The number of whitespace-delimited tokens of a string, said without the scan: the number
  of positions where a token begins, that is, a character that is not whitespace and is
  either the first of the string or preceded by whitespace.
\<close>

definition count_tokens :: "pystr \<Rightarrow> nat" where
  "count_tokens s =
     length (filter (\<lambda>i. \<not> isspace (s ! i) \<and> (i = 0 \<or> isspace (s ! (i - 1)))) [0..<length s])"

section \<open>Letter tables\<close>

text \<open>
  \<open>HEBREW_VALUES\<close>, in the order of the source literal.  The keys are the letters
  U+05D0 .. U+05EA; each final form follows its regular form.
\<close>

definition HEBREW_VALUES :: "(pystr, int) pydict" where
  "HEBREW_VALUES =
    [([0x5D0], 1), ([0x5D1], 2), ([0x5D2], 3), ([0x5D3], 4), ([0x5D4], 5), ([0x5D5], 6),
     ([0x5D6], 7), ([0x5D7], 8), ([0x5D8], 9), ([0x5D9], 10),
     ([0x5DB], 20), ([0x5DA], 20), ([0x5DC], 30), ([0x5DE], 40), ([0x5DD], 40),
     ([0x5E0], 50), ([0x5DF], 50), ([0x5E1], 60), ([0x5E2], 70),
     ([0x5E4], 80), ([0x5E3], 80), ([0x5E6], 90), ([0x5E5], 90), ([0x5E7], 100),
     ([0x5E8], 200), ([0x5E9], 300), ([0x5EA], 400)]"

text \<open>
  The four English tables are dict comprehensions over \<open>range(26)\<close> with key
  \<open>chr(ord('a') + i)\<close>; \<open>ord('a')\<close> is 97.
\<close>

definition ENGLISH_ORDINAL :: "(pystr, int) pydict" where
  "ENGLISH_ORDINAL = map (\<lambda>i. ([97 + i], int i + 1)) [0..<26]"

definition ENGLISH_REDUCTION :: "(pystr, int) pydict" where
  "ENGLISH_REDUCTION = map (\<lambda>i. ([97 + i], (int i mod 9) + 1)) [0..<26]"

definition ENGLISH_REVERSE_ORDINAL :: "(pystr, int) pydict" where
  "ENGLISH_REVERSE_ORDINAL = map (\<lambda>i. ([97 + i], 26 - int i)) [0..<26]"

definition ENGLISH_REVERSE_REDUCTION :: "(pystr, int) pydict" where
  "ENGLISH_REVERSE_REDUCTION = map (\<lambda>i. ([97 + i], ((25 - int i) mod 9) + 1)) [0..<26]"

section \<open>Computation logic\<close>

type_synonym totals = "(string, int) pydict"

record hebrew_row =
  he_Letter :: pystr
  Value :: int
  Small :: int

text \<open>
  The scan of \<open>compute_hebrew_gematria\<close>: for every character of the normalised text,
  a membership test, then the subscription (which raises on a missing key), then the
  two appends.
\<close>

fun scan_hebrew :: "pystr list \<Rightarrow> pystr list \<Rightarrow> int list \<Rightarrow> py_error + (pystr list \<times> int list)" where
  "scan_hebrew [] clean_chars clean_values = Inr (clean_chars, clean_values)"
| "scan_hebrew (char # rest) clean_chars clean_values =
     (if dict_contains HEBREW_VALUES char then
        (case dict_getitem HEBREW_VALUES char of
           Inl e \<Rightarrow> Inl e
         | Inr val \<Rightarrow> scan_hebrew rest (clean_chars @ [char]) (clean_values @ [val]))
      else scan_hebrew rest clean_chars clean_values)"

text \<open>
  \<open>compute_hebrew_gematria\<close>.  \<open>unicodedata.normalize('NFKD', text)\<close> is a function of
  Python's standard library, not of this program: it is the parameter \<open>nfkd\<close>.
  Python's \<open>%\<close> with a positive divisor is \<open>mod\<close> on \<open>int\<close>.
\<close>

definition compute_hebrew_gematria ::
    "(pystr \<Rightarrow> pystr) \<Rightarrow> pystr \<Rightarrow> py_error + (totals \<times> hebrew_row list)" where
  "compute_hebrew_gematria nfkd text =
     (if text = [] then
        Inr ([(''Standard'', 0), (''Mispar Katan'', 0), (''Letters'', 0), (''Words'', 0)], [])
      else
        (case scan_hebrew (chars (nfkd text)) [] [] of
           Inl e \<Rightarrow> Inl e
         | Inr (clean_chars, clean_values) \<Rightarrow>
             if clean_chars = [] then
               Inr ([(''Standard'', 0), (''Mispar Katan'', 0), (''Letters'', 0),
                     (''Words'', int (length (str_split text)))], [])
             else
               let total_standard = sum_list clean_values;
                   total_katan = sum_list (map (\<lambda>v. (v - 1) mod 9 + 1) clean_values);
                   results = [(''Standard'', total_standard), (''Mispar Katan'', total_katan),
                              (''Letters'', int (length clean_chars)),
                              (''Words'', int (length (str_split text)))];
                   breakdown = map (\<lambda>(c, v). \<lparr>he_Letter = c, Value = v, Small = (v - 1) mod 9 + 1\<rparr>)
                                   (zip clean_chars clean_values)
               in Inr (results, breakdown)))"

record english_row =
  en_Letter :: pystr
  Ordinal :: int
  Reduction :: int
  Rev_Ordinal :: int
  Rev_Reduction :: int

text \<open>
  \<open>sum(TABLE[c] for c in clean_text)\<close>: each subscription may raise, and the first
  \<open>KeyError\<close> ends the sum.
\<close>

fun sum_items :: "(pystr, int) pydict \<Rightarrow> pystr list \<Rightarrow> py_error + int" where
  "sum_items d [] = Inr 0"
| "sum_items d (c # cs) =
     (case dict_getitem d c of
        Inl e \<Rightarrow> Inl e
      | Inr v \<Rightarrow> (case sum_items d cs of Inl e \<Rightarrow> Inl e | Inr t \<Rightarrow> Inr (v + t)))"

text \<open>The loop that builds the English breakdown: four subscriptions per letter.\<close>

fun english_breakdown :: "(pystr \<Rightarrow> pystr) \<Rightarrow> pystr list \<Rightarrow> py_error + english_row list" where
  "english_breakdown upper [] = Inr []"
| "english_breakdown upper (c # cs) =
     (case dict_getitem ENGLISH_ORDINAL c of Inl e \<Rightarrow> Inl e | Inr v1 \<Rightarrow>
      case dict_getitem ENGLISH_REDUCTION c of Inl e \<Rightarrow> Inl e | Inr v2 \<Rightarrow>
      case dict_getitem ENGLISH_REVERSE_ORDINAL c of Inl e \<Rightarrow> Inl e | Inr v3 \<Rightarrow>
      case dict_getitem ENGLISH_REVERSE_REDUCTION c of Inl e \<Rightarrow> Inl e | Inr v4 \<Rightarrow>
      case english_breakdown upper cs of Inl e \<Rightarrow> Inl e | Inr rows \<Rightarrow>
        Inr (\<lparr>en_Letter = upper c, Ordinal = v1, Reduction = v2,
              Rev_Ordinal = v3, Rev_Reduction = v4\<rparr> # rows))"

text \<open>
  The list comprehension \<open>[c.lower() for c in text if c.lower() in ENGLISH_ORDINAL]\<close>.
  \<open>str.lower\<close> and \<open>str.upper\<close> are Python's, driven by the Unicode database: they are the
  parameters \<open>lower\<close> and \<open>upper\<close> of the English engine.
\<close>

definition english_clean_text :: "(pystr \<Rightarrow> pystr) \<Rightarrow> pystr \<Rightarrow> pystr list" where
  "english_clean_text lower text =
     map lower (filter (\<lambda>c. dict_contains ENGLISH_ORDINAL (lower c)) (chars text))"

text \<open>\<open>compute_english_gematria\<close>: the two early returns, the four sums, the breakdown.\<close>

definition compute_english_gematria ::
    "(pystr \<Rightarrow> pystr) \<Rightarrow> (pystr \<Rightarrow> pystr) \<Rightarrow> pystr \<Rightarrow> py_error + (totals \<times> english_row list)" where
  "compute_english_gematria lower upper text =
     (if text = [] then Inr ([], [])
      else
        let clean_text = english_clean_text lower text
        in if clean_text = [] then Inr ([], [])
           else
             case sum_items ENGLISH_ORDINAL clean_text of Inl e \<Rightarrow> Inl e | Inr ordinal \<Rightarrow>
             case sum_items ENGLISH_REDUCTION clean_text of Inl e \<Rightarrow> Inl e | Inr reduction \<Rightarrow>
             case sum_items ENGLISH_REVERSE_ORDINAL clean_text of Inl e \<Rightarrow> Inl e | Inr rev_ordinal \<Rightarrow>
             case sum_items ENGLISH_REVERSE_REDUCTION clean_text of Inl e \<Rightarrow> Inl e | Inr rev_reduction \<Rightarrow>
             case english_breakdown upper clean_text of Inl e \<Rightarrow> Inl e | Inr breakdown \<Rightarrow>
               Inr ([(''English Ordinal'', ordinal), (''Full Reduction'', reduction),
                     (''Reverse Ordinal'', rev_ordinal), (''Reverse Reduction'', rev_reduction)],
                    breakdown))"

section \<open>The Unicode functions on the code points the examples use\<close>

text \<open>
  Concrete instances of the three library functions, for evaluating the program on
  explicit strings.  Each is exact on the code points listed with it and leaves every
  other code point as it is; the general theorems below do not use them, they hold for
  any \<open>nfkd\<close>, \<open>lower\<close> and \<open>upper\<close>.

  \<open>decompose\<close> is the full compatibility decomposition (Unicode 14) of the code points
  outside U+05D0 .. U+05EA whose decomposition contains a letter of that range: the
  letter-like symbols U+2135 .. U+2138 and the Hebrew presentation forms.
\<close>

definition decompose :: "codepoint \<Rightarrow> pystr" where
  "decompose c = (case map_of
     [(0x2135, [0x5D0]), (0x2136, [0x5D1]), (0x2137, [0x5D2]), (0x2138, [0x5D3]),
      (0xFB1D, [0x5D9, 0x5B4]), (0xFB20, [0x5E2]), (0xFB21, [0x5D0]), (0xFB22, [0x5D3]),
      (0xFB23, [0x5D4]), (0xFB24, [0x5DB]), (0xFB25, [0x5DC]), (0xFB26, [0x5DD]),
      (0xFB27, [0x5E8]), (0xFB28, [0x5EA]), (0xFB2A, [0x5E9, 0x5C1]), (0xFB2B, [0x5E9, 0x5C2]),
      (0xFB2C, [0x5E9, 0x5BC, 0x5C1]), (0xFB2D, [0x5E9, 0x5BC, 0x5C2]),
      (0xFB2E, [0x5D0, 0x5B7]), (0xFB2F, [0x5D0, 0x5B8]), (0xFB30, [0x5D0, 0x5BC]),
      (0xFB31, [0x5D1, 0x5BC]), (0xFB32, [0x5D2, 0x5BC]), (0xFB33, [0x5D3, 0x5BC]),
      (0xFB34, [0x5D4, 0x5BC]), (0xFB35, [0x5D5, 0x5BC]), (0xFB36, [0x5D6, 0x5BC]),
      (0xFB38, [0x5D8, 0x5BC]), (0xFB39, [0x5D9, 0x5BC]), (0xFB3A, [0x5DA, 0x5BC]),
      (0xFB3B, [0x5DB, 0x5BC]), (0xFB3C, [0x5DC, 0x5BC]), (0xFB3E, [0x5DE, 0x5BC]),
      (0xFB40, [0x5E0, 0x5BC]), (0xFB41, [0x5E1, 0x5BC]), (0xFB43, [0x5E3, 0x5BC]),
      (0xFB44, [0x5E4, 0x5BC]), (0xFB46, [0x5E6, 0x5BC]), (0xFB47, [0x5E7, 0x5BC]),
      (0xFB48, [0x5E8, 0x5BC]), (0xFB49, [0x5E9, 0x5BC]), (0xFB4A, [0x5EA, 0x5BC]),
      (0xFB4B, [0x5D5, 0x5B9]), (0xFB4C, [0x5D1, 0x5BF]), (0xFB4D, [0x5DB, 0x5BF]),
      (0xFB4E, [0x5E4, 0x5BF]), (0xFB4F, [0x5D0, 0x5DC])] c
     of None \<Rightarrow> [c] | Some d \<Rightarrow> d)"

definition py_nfkd :: "pystr \<Rightarrow> pystr" where
  "py_nfkd s = concat (map decompose s)"

text \<open>
  The code points whose lowercase form is a letter \<open>a\<close> .. \<open>z\<close> are \<open>A\<close> .. \<open>Z\<close>,
  \<open>a\<close> .. \<open>z\<close> and U+212A KELVIN SIGN (lowercase \<open>k\<close>).
\<close>

definition lower_cp :: "codepoint \<Rightarrow> codepoint" where
  "lower_cp c = (if 65 \<le> c \<and> c \<le> 90 then c + 32 else if c = 0x212A then 107 else c)"

definition py_lower :: "pystr \<Rightarrow> pystr" where
  "py_lower s = map lower_cp s"

definition upper_cp :: "codepoint \<Rightarrow> codepoint" where
  "upper_cp c = (if 97 \<le> c \<and> c \<le> 122 then c - 32 else c)"

definition py_upper :: "pystr \<Rightarrow> pystr" where
  "py_upper s = map upper_cp s"

section \<open>The recent-calculations log\<close>

record history_entry =
  entry_text :: pystr
  entry_lang :: string
  entry_val :: int

text \<open>
  The entry built under \<open># Update History\<close>: the conditional expression binds weaker
  than \<open>+\<close>, so the ellipsis is appended only to the truncated text.
\<close>

definition make_entry :: "pystr \<Rightarrow> bool \<Rightarrow> totals \<Rightarrow> history_entry" where
  "make_entry input_text is_hebrew results =
     \<lparr>entry_text = (if length input_text > 30 then take 30 input_text @ [46, 46, 46]
                     else input_text),
      entry_lang = (if is_hebrew then ''Hebrew'' else ''English''),
      entry_val = (if is_hebrew then dict_get results ''Standard'' 0
                   else dict_get results ''English Ordinal'' 0)\<rparr>"

text \<open>
  The update of \<open>st.session_state['history']\<close>, the only state the program keeps between
  calculations: \<open>insert(0, entry)\<close>, then the slice \<open>[:5]\<close>, both under
  \<open>if input_text.strip()\<close>.
\<close>

definition update_history ::
    "pystr \<Rightarrow> bool \<Rightarrow> totals \<Rightarrow> history_entry list \<Rightarrow> history_entry list" where
  "update_history input_text is_hebrew results history =
     (if str_strip input_text \<noteq> [] then take 5 (make_entry input_text is_hebrew results # history)
      else history)"

text \<open>A sequence of calculations, oldest first, each with its text, language and results.\<close>

fun run_updates ::
    "(pystr \<times> bool \<times> totals) list \<Rightarrow> history_entry list \<Rightarrow> history_entry list" where
  "run_updates [] history = history"
| "run_updates ((t, h, r) # calls) history = run_updates calls (update_history t h r history)"

section \<open>The engines over the module's global state\<close>

text \<open>
  The names bound at the top level of the script, and the session's log, are state that
  any code of the program could rebind or mutate: the five tables are ordinary \<open>dict\<close>
  objects.  Here the two engines are written once more as the code runs them, with the
  state passed in and returned: every use of a table's name is a read of the state at
  that moment, and the state after each step is the one the next step sees.
\<close>

record module_state =
  g_HEBREW_VALUES :: "(pystr, int) pydict"
  g_ENGLISH_ORDINAL :: "(pystr, int) pydict"
  g_ENGLISH_REDUCTION :: "(pystr, int) pydict"
  g_ENGLISH_REVERSE_ORDINAL :: "(pystr, int) pydict"
  g_ENGLISH_REVERSE_REDUCTION :: "(pystr, int) pydict"
  g_history :: "history_entry list"

text \<open>The state once the top-level assignments have run and the log is initialised.\<close>

definition initial_state :: module_state where
  "initial_state =
     \<lparr>g_HEBREW_VALUES = HEBREW_VALUES,
      g_ENGLISH_ORDINAL = ENGLISH_ORDINAL,
      g_ENGLISH_REDUCTION = ENGLISH_REDUCTION,
      g_ENGLISH_REVERSE_ORDINAL = ENGLISH_REVERSE_ORDINAL,
      g_ENGLISH_REVERSE_REDUCTION = ENGLISH_REVERSE_REDUCTION,
      g_history = []\<rparr>"

fun scan_hebrew_st ::
    "pystr list \<Rightarrow> pystr list \<Rightarrow> int list \<Rightarrow> module_state \<Rightarrow>
     (py_error + (pystr list \<times> int list)) \<times> module_state" where
  "scan_hebrew_st [] clean_chars clean_values g = (Inr (clean_chars, clean_values), g)"
| "scan_hebrew_st (char # rest) clean_chars clean_values g =
     (if dict_contains (g_HEBREW_VALUES g) char then
        (case dict_getitem (g_HEBREW_VALUES g) char of
           Inl e \<Rightarrow> (Inl e, g)
         | Inr val \<Rightarrow> scan_hebrew_st rest (clean_chars @ [char]) (clean_values @ [val]) g)
      else scan_hebrew_st rest clean_chars clean_values g)"

definition compute_hebrew_gematria_st ::
    "(pystr \<Rightarrow> pystr) \<Rightarrow> pystr \<Rightarrow> module_state \<Rightarrow>
     (py_error + (totals \<times> hebrew_row list)) \<times> module_state" where
  "compute_hebrew_gematria_st nfkd text g =
     (if text = [] then
        (Inr ([(''Standard'', 0), (''Mispar Katan'', 0), (''Letters'', 0), (''Words'', 0)], []), g)
      else
        (case scan_hebrew_st (chars (nfkd text)) [] [] g of
           (Inl e, g') \<Rightarrow> (Inl e, g')
         | (Inr (clean_chars, clean_values), g') \<Rightarrow>
             if clean_chars = [] then
               (Inr ([(''Standard'', 0), (''Mispar Katan'', 0), (''Letters'', 0),
                      (''Words'', int (length (str_split text)))], []), g')
             else
               let total_standard = sum_list clean_values;
                   total_katan = sum_list (map (\<lambda>v. (v - 1) mod 9 + 1) clean_values);
                   results = [(''Standard'', total_standard), (''Mispar Katan'', total_katan),
                              (''Letters'', int (length clean_chars)),
                              (''Words'', int (length (str_split text)))];
                   breakdown = map (\<lambda>(c, v). \<lparr>he_Letter = c, Value = v, Small = (v - 1) mod 9 + 1\<rparr>)
                                   (zip clean_chars clean_values)
               in (Inr (results, breakdown), g')))"

fun english_clean_text_st ::
    "(pystr \<Rightarrow> pystr) \<Rightarrow> pystr list \<Rightarrow> module_state \<Rightarrow> pystr list \<times> module_state" where
  "english_clean_text_st lower [] g = ([], g)"
| "english_clean_text_st lower (c # cs) g =
     (if dict_contains (g_ENGLISH_ORDINAL g) (lower c) then
        (case english_clean_text_st lower cs g of (kept, g') \<Rightarrow> (lower c # kept, g'))
      else english_clean_text_st lower cs g)"

text \<open>The table of a sum is given by the field of the state that holds it.\<close>

fun sum_items_st ::
    "(module_state \<Rightarrow> (pystr, int) pydict) \<Rightarrow> pystr list \<Rightarrow> module_state \<Rightarrow>
     (py_error + int) \<times> module_state" where
  "sum_items_st table [] g = (Inr 0, g)"
| "sum_items_st table (c # cs) g =
     (case dict_getitem (table g) c of
        Inl e \<Rightarrow> (Inl e, g)
      | Inr v \<Rightarrow>
          (case sum_items_st table cs g of
             (Inl e, g') \<Rightarrow> (Inl e, g')
           | (Inr t, g') \<Rightarrow> (Inr (v + t), g')))"

fun english_breakdown_st ::
    "(pystr \<Rightarrow> pystr) \<Rightarrow> pystr list \<Rightarrow> module_state \<Rightarrow>
     (py_error + english_row list) \<times> module_state" where
  "english_breakdown_st upper [] g = (Inr [], g)"
| "english_breakdown_st upper (c # cs) g =
     (case dict_getitem (g_ENGLISH_ORDINAL g) c of Inl e \<Rightarrow> (Inl e, g) | Inr v1 \<Rightarrow>
      case dict_getitem (g_ENGLISH_REDUCTION g) c of Inl e \<Rightarrow> (Inl e, g) | Inr v2 \<Rightarrow>
      case dict_getitem (g_ENGLISH_REVERSE_ORDINAL g) c of Inl e \<Rightarrow> (Inl e, g) | Inr v3 \<Rightarrow>
      case dict_getitem (g_ENGLISH_REVERSE_REDUCTION g) c of Inl e \<Rightarrow> (Inl e, g) | Inr v4 \<Rightarrow>
      case english_breakdown_st upper cs g of
        (Inl e, g') \<Rightarrow> (Inl e, g')
      | (Inr rows, g') \<Rightarrow>
          (Inr (\<lparr>en_Letter = upper c, Ordinal = v1, Reduction = v2,
                 Rev_Ordinal = v3, Rev_Reduction = v4\<rparr> # rows), g'))"

definition compute_english_gematria_st ::
    "(pystr \<Rightarrow> pystr) \<Rightarrow> (pystr \<Rightarrow> pystr) \<Rightarrow> pystr \<Rightarrow> module_state \<Rightarrow>
     (py_error + (totals \<times> english_row list)) \<times> module_state" where
  "compute_english_gematria_st lower upper text g =
     (if text = [] then (Inr ([], []), g)
      else
        case english_clean_text_st lower (chars text) g of (clean_text, g1) \<Rightarrow>
        if clean_text = [] then (Inr ([], []), g1)
        else
          case sum_items_st g_ENGLISH_ORDINAL clean_text g1 of
            (Inl e, g2) \<Rightarrow> (Inl e, g2) | (Inr ordinal, g2) \<Rightarrow>
          case sum_items_st g_ENGLISH_REDUCTION clean_text g2 of
            (Inl e, g3) \<Rightarrow> (Inl e, g3) | (Inr reduction, g3) \<Rightarrow>
          case sum_items_st g_ENGLISH_REVERSE_ORDINAL clean_text g3 of
            (Inl e, g4) \<Rightarrow> (Inl e, g4) | (Inr rev_ordinal, g4) \<Rightarrow>
          case sum_items_st g_ENGLISH_REVERSE_REDUCTION clean_text g4 of
            (Inl e, g5) \<Rightarrow> (Inl e, g5) | (Inr rev_reduction, g5) \<Rightarrow>
          case english_breakdown_st upper clean_text g5 of
            (Inl e, g6) \<Rightarrow> (Inl e, g6) | (Inr breakdown, g6) \<Rightarrow>
              (Inr ([(''English Ordinal'', ordinal), (''Full Reduction'', reduction),
                     (''Reverse Ordinal'', rev_ordinal), (''Reverse Reduction'', rev_reduction)],
                    breakdown), g6))"

section \<open>The Calculate action\<close>

text \<open>
  What the script does when the button is pressed, without the rendering: it calls the
  engine of the selected language on the input text, and then updates the log with the
  results.  The log is the one field of the state that this action assigns.
\<close>

definition calculate ::
    "(pystr \<Rightarrow> pystr) \<Rightarrow> (pystr \<Rightarrow> pystr) \<Rightarrow> (pystr \<Rightarrow> pystr) \<Rightarrow> bool \<Rightarrow> pystr \<Rightarrow>
     module_state \<Rightarrow>
     (py_error + (totals \<times> (hebrew_row list + english_row list))) \<times> module_state" where
  "calculate nfkd lower upper is_hebrew input_text g =
     (case (if is_hebrew then
              (case compute_hebrew_gematria_st nfkd input_text g of
                 (Inl e, g') \<Rightarrow> (Inl e, g')
               | (Inr (results, breakdown_data), g') \<Rightarrow> (Inr (results, Inl breakdown_data), g'))
            else
              (case compute_english_gematria_st lower upper input_text g of
                 (Inl e, g') \<Rightarrow> (Inl e, g')
               | (Inr (results, breakdown_data), g') \<Rightarrow> (Inr (results, Inr breakdown_data), g')))
      of (Inl e, g') \<Rightarrow> (Inl e, g')
       | (Inr (results, breakdown_data), g') \<Rightarrow>
           (Inr (results, breakdown_data),
            g'\<lparr>g_history := update_history input_text is_hebrew results (g_history g')\<rparr>))"

section \<open>Dictionary lookups\<close>

lemma contains_getitem: "dict_contains d k \<Longrightarrow> dict_getitem d k = Inr (dict_get d k dflt)"
  unfolding dict_contains_def dict_getitem_def dict_get_def
  by (cases "map_of d k") (auto simp: map_of_eq_None_iff)

lemma getitem_Inr_contains: "dict_getitem d k = Inr v \<Longrightarrow> dict_contains d k"
  unfolding dict_contains_def dict_getitem_def
  by (cases "map_of d k") (auto dest: map_of_SomeD intro: rev_image_eqI)

lemma getitem_values:
  "\<forall>c \<in> set cs. dict_contains d c \<Longrightarrow>
     list_all2 (\<lambda>c v. dict_getitem d c = Inr v) cs (map (\<lambda>c. dict_get d c dflt) cs)"
  by (induction cs) (simp_all add: contains_getitem)

section \<open>The Hebrew engine\<close>

text \<open>
  The scan never raises: it keeps, in order, the characters that are keys of the table,
  with their values.
\<close>

lemma scan_hebrew_eq:
  "scan_hebrew cs a b =
     Inr (a @ filter (dict_contains HEBREW_VALUES) cs,
          b @ map (\<lambda>c. dict_get HEBREW_VALUES c 0) (filter (dict_contains HEBREW_VALUES) cs))"
  by (induction cs arbitrary: a b) (simp_all add: contains_getitem [where dflt = 0])

lemma str_split_Nil: "str_split [] = []"
  by (simp add: str_split_def)

lemma compute_hebrew_eq:
  "compute_hebrew_gematria nfkd text =
     (let ls = filter (dict_contains HEBREW_VALUES) (chars (nfkd text));
          vs = map (\<lambda>c. dict_get HEBREW_VALUES c 0) ls
      in if text = [] \<or> ls = [] then
           Inr ([(''Standard'', 0), (''Mispar Katan'', 0), (''Letters'', 0),
                 (''Words'', int (length (str_split text)))], [])
         else
           Inr ([(''Standard'', sum_list vs),
                 (''Mispar Katan'', sum_list (map (\<lambda>v. (v - 1) mod 9 + 1) vs)),
                 (''Letters'', int (length ls)),
                 (''Words'', int (length (str_split text)))],
                map (\<lambda>(c, v). \<lparr>he_Letter = c, Value = v, Small = (v - 1) mod 9 + 1\<rparr>) (zip ls vs)))"
  by (simp add: compute_hebrew_gematria_def scan_hebrew_eq Let_def str_split_Nil)

lemma hebrew_example:
  "compute_hebrew_gematria py_nfkd [0x5E9, 0x5DC, 0x5D5, 0x5DD] =
     Inr ([(''Standard'', 376), (''Mispar Katan'', 16), (''Letters'', 4), (''Words'', 1)],
          [\<lparr>he_Letter = [0x5E9], Value = 300, Small = 3\<rparr>,
           \<lparr>he_Letter = [0x5DC], Value = 30, Small = 3\<rparr>,
           \<lparr>he_Letter = [0x5D5], Value = 6, Small = 6\<rparr>,
           \<lparr>he_Letter = [0x5DD], Value = 40, Small = 4\<rparr>])"
    by (simp add: compute_hebrew_gematria_def py_nfkd_def decompose_def chars_def dict_contains_def
      dict_getitem_def HEBREW_VALUES_def str_split_def isspace_def)


lemma hebrew_finals:
  "dict_getitem HEBREW_VALUES [0x5DB] = Inr 20" "dict_getitem HEBREW_VALUES [0x5DA] = Inr 20"
  "dict_getitem HEBREW_VALUES [0x5DE] = Inr 40" "dict_getitem HEBREW_VALUES [0x5DD] = Inr 40"
  "dict_getitem HEBREW_VALUES [0x5E0] = Inr 50" "dict_getitem HEBREW_VALUES [0x5DF] = Inr 50"
  "dict_getitem HEBREW_VALUES [0x5E4] = Inr 80" "dict_getitem HEBREW_VALUES [0x5E3] = Inr 80"
  "dict_getitem HEBREW_VALUES [0x5E6] = Inr 90" "dict_getitem HEBREW_VALUES [0x5E5] = Inr 90"
  by (simp_all add: dict_getitem_def HEBREW_VALUES_def)

lemma hebrew_general:
  assumes e: "nfkd [] = []"
    and ne: "filter (dict_contains HEBREW_VALUES) (chars (nfkd text)) \<noteq> []"
  shows "\<exists>vals breakdown.
       list_all2 (\<lambda>c v. dict_getitem HEBREW_VALUES c = Inr v)
         (filter (dict_contains HEBREW_VALUES) (chars (nfkd text))) vals \<and>
       compute_hebrew_gematria nfkd text =
         Inr ([(''Standard'', sum_list vals),
               (''Mispar Katan'', sum_list (map (\<lambda>v. (v - 1) mod 9 + 1) vals)),
               (''Letters'', int (length vals)),
               (''Words'', int (length (str_split text)))], breakdown)"
proof -
  let ?ls = "filter (dict_contains HEBREW_VALUES) (chars (nfkd text))"
  let ?vs = "map (\<lambda>c. dict_get HEBREW_VALUES c 0) ?ls"
  from e ne have t: "text \<noteq> []" by (auto simp: chars_def)
  have a: "list_all2 (\<lambda>c v. dict_getitem HEBREW_VALUES c = Inr v) ?ls ?vs"
    by (rule getitem_values) simp
  have b: "compute_hebrew_gematria nfkd text =
         Inr ([(''Standard'', sum_list ?vs),
               (''Mispar Katan'', sum_list (map (\<lambda>v. (v - 1) mod 9 + 1) ?vs)),
               (''Letters'', int (length ?vs)),
               (''Words'', int (length (str_split text)))],
              map (\<lambda>(c, v). \<lparr>he_Letter = c, Value = v, Small = (v - 1) mod 9 + 1\<rparr>) (zip ?ls ?vs))"
    using t ne by (simp add: compute_hebrew_eq Let_def)
  from a b show ?thesis by (intro exI conjI)
qed

text \<open>
  Claim C1.  When the normalised text has at least one character of the Hebrew table,
  \<open>compute_hebrew_gematria\<close> returns \<open>Standard\<close> equal to the sum of the table values of
  those characters and \<open>Mispar Katan\<close> equal to the sum of \<open>(v - 1) mod 9 + 1\<close> over the
  same values (and \<open>Letters\<close> their number).  Each of the five final forms is in the
  table with the value of its regular form: kaf 20, mem 40, nun 50, pe 80, tsadi 90.
  For U+05E9 U+05DC U+05D5 U+05DD (shin, lamed, vav, final mem) the
  totals are 376 and 16.  The normaliser is any function that maps the empty string to
  the empty string, as NFKD does.
\<close>

theorem hebrew_totals_are_letter_sums:
  "(nfkd [] = [] \<longrightarrow>
    filter (dict_contains HEBREW_VALUES) (chars (nfkd text)) \<noteq> [] \<longrightarrow>
    (\<exists>vals breakdown.
       list_all2 (\<lambda>c v. dict_getitem HEBREW_VALUES c = Inr v)
         (filter (dict_contains HEBREW_VALUES) (chars (nfkd text))) vals \<and>
       compute_hebrew_gematria nfkd text =
         Inr ([(''Standard'', sum_list vals),
               (''Mispar Katan'', sum_list (map (\<lambda>v. (v - 1) mod 9 + 1) vals)),
               (''Letters'', int (length vals)),
               (''Words'', int (length (str_split text)))], breakdown)))
   \<and> (dict_getitem HEBREW_VALUES [0x5DB] = Inr 20 \<and> dict_getitem HEBREW_VALUES [0x5DA] = Inr 20
   \<and> dict_getitem HEBREW_VALUES [0x5DE] = Inr 40 \<and> dict_getitem HEBREW_VALUES [0x5DD] = Inr 40
   \<and> dict_getitem HEBREW_VALUES [0x5E0] = Inr 50 \<and> dict_getitem HEBREW_VALUES [0x5DF] = Inr 50
   \<and> dict_getitem HEBREW_VALUES [0x5E4] = Inr 80 \<and> dict_getitem HEBREW_VALUES [0x5E3] = Inr 80
   \<and> dict_getitem HEBREW_VALUES [0x5E6] = Inr 90 \<and> dict_getitem HEBREW_VALUES [0x5E5] = Inr 90)
   \<and> compute_hebrew_gematria py_nfkd [0x5E9, 0x5DC, 0x5D5, 0x5DD] =
           Inr ([(''Standard'', 376), (''Mispar Katan'', 16), (''Letters'', 4), (''Words'', 1)],
          [\<lparr>he_Letter = [0x5E9], Value = 300, Small = 3\<rparr>,
           \<lparr>he_Letter = [0x5DC], Value = 30, Small = 3\<rparr>,
           \<lparr>he_Letter = [0x5D5], Value = 6, Small = 6\<rparr>,
           \<lparr>he_Letter = [0x5DD], Value = 40, Small = 4\<rparr>])"
proof (intro conjI impI)
  assume "nfkd [] = []" and "filter (dict_contains HEBREW_VALUES) (chars (nfkd text)) \<noteq> []"
  then show "\<exists>vals breakdown.
       list_all2 (\<lambda>c v. dict_getitem HEBREW_VALUES c = Inr v)
         (filter (dict_contains HEBREW_VALUES) (chars (nfkd text))) vals \<and>
       compute_hebrew_gematria nfkd text =
         Inr ([(''Standard'', sum_list vals),
               (''Mispar Katan'', sum_list (map (\<lambda>v. (v - 1) mod 9 + 1) vals)),
               (''Letters'', int (length vals)),
               (''Words'', int (length (str_split text)))], breakdown)"
    by (rule hebrew_general)
qed (simp_all only: hebrew_finals hebrew_example)

theorem hebrew_totals_are_letter_sums_witness:
  "py_nfkd [] = [] \<and>
   filter (dict_contains HEBREW_VALUES) (chars (py_nfkd [0x5D0, 0x20, 0xFB2A])) \<noteq> [] \<and>
   (\<exists>vals breakdown.
       list_all2 (\<lambda>c v. dict_getitem HEBREW_VALUES c = Inr v)
         (filter (dict_contains HEBREW_VALUES) (chars (py_nfkd [0x5D0, 0x20, 0xFB2A]))) vals \<and>
       compute_hebrew_gematria py_nfkd [0x5D0, 0x20, 0xFB2A] =
         Inr ([(''Standard'', sum_list vals),
               (''Mispar Katan'', sum_list (map (\<lambda>v. (v - 1) mod 9 + 1) vals)),
               (''Letters'', int (length vals)),
               (''Words'', int (length (str_split [0x5D0, 0x20, 0xFB2A])))], breakdown))"
proof -
  have h1: "py_nfkd [] = []"
    by (simp add: py_nfkd_def)
  have h2: "filter (dict_contains HEBREW_VALUES) (chars (py_nfkd [0x5D0, 0x20, 0xFB2A])) \<noteq> []"
    by (simp add: py_nfkd_def decompose_def chars_def dict_contains_def HEBREW_VALUES_def)
  note hebrew_totals_are_letter_sums [of py_nfkd "[0x5D0, 0x20, 0xFB2A]", THEN conjunct1, rule_format, OF h1 h2]
  with h1 h2 show ?thesis by (intro conjI)
qed

section \<open>The English engine\<close>

lemma map_of_tabulate:
  "inj f \<Longrightarrow> i \<in> set xs \<Longrightarrow> map_of (map (\<lambda>i. (f i, g i)) xs) (f i) = Some (g i)"
  by (induction xs) (auto simp: inj_eq)

lemma inj_letter: "inj (\<lambda>i::nat. [97 + i])"
  by (simp add: inj_def)

lemma english_keys:
  "map fst ENGLISH_ORDINAL = map (\<lambda>i. [97 + i]) [0..<26]"
  "map fst ENGLISH_REDUCTION = map (\<lambda>i. [97 + i]) [0..<26]"
  "map fst ENGLISH_REVERSE_ORDINAL = map (\<lambda>i. [97 + i]) [0..<26]"
  "map fst ENGLISH_REVERSE_REDUCTION = map (\<lambda>i. [97 + i]) [0..<26]"
  by (simp_all only: ENGLISH_ORDINAL_def ENGLISH_REDUCTION_def ENGLISH_REVERSE_ORDINAL_def
        ENGLISH_REVERSE_REDUCTION_def map_map comp_def fst_conv)

lemma english_same_keys:
  "dict_contains ENGLISH_REDUCTION k = dict_contains ENGLISH_ORDINAL k"
  "dict_contains ENGLISH_REVERSE_ORDINAL k = dict_contains ENGLISH_ORDINAL k"
  "dict_contains ENGLISH_REVERSE_REDUCTION k = dict_contains ENGLISH_ORDINAL k"
  by (simp_all only: dict_contains_def english_keys)

lemma english_contains_iff:
  "dict_contains ENGLISH_ORDINAL k \<longleftrightarrow> (\<exists>i<26. k = [97 + i])"
  by (auto simp only: dict_contains_def english_keys set_map set_upt image_iff atLeastLessThan_iff)

lemma english_table_values:
  assumes "i < 26"
  shows "dict_getitem ENGLISH_ORDINAL [97 + i] = Inr (int i + 1)"
    and "dict_getitem ENGLISH_REDUCTION [97 + i] = Inr (int i mod 9 + 1)"
    and "dict_getitem ENGLISH_REVERSE_ORDINAL [97 + i] = Inr (26 - int i)"
    and "dict_getitem ENGLISH_REVERSE_REDUCTION [97 + i] = Inr ((25 - int i) mod 9 + 1)"
  using assms
  by (simp_all add: dict_getitem_def ENGLISH_ORDINAL_def ENGLISH_REDUCTION_def
        ENGLISH_REVERSE_ORDINAL_def ENGLISH_REVERSE_REDUCTION_def
        map_of_tabulate [OF inj_letter] del: upt.simps)

lemma sum_items_eq:
  "\<forall>c \<in> set cs. dict_contains d c \<Longrightarrow>
     sum_items d cs = Inr (sum_list (map (\<lambda>c. dict_get d c 0) cs))"
  by (induction cs) (simp_all add: contains_getitem [where dflt = 0])

lemma english_breakdown_eq:
  "\<forall>c \<in> set cs. dict_contains ENGLISH_ORDINAL c \<Longrightarrow>
     english_breakdown upper cs =
       Inr (map (\<lambda>c. \<lparr>en_Letter = upper c,
                        Ordinal = dict_get ENGLISH_ORDINAL c 0,
                        Reduction = dict_get ENGLISH_REDUCTION c 0,
                        Rev_Ordinal = dict_get ENGLISH_REVERSE_ORDINAL c 0,
                        Rev_Reduction = dict_get ENGLISH_REVERSE_REDUCTION c 0\<rparr>) cs)"
  by (induction cs) (simp_all add: contains_getitem [where dflt = 0] english_same_keys)

lemma clean_text_keys:
  "\<forall>c \<in> set (english_clean_text lower text). dict_contains ENGLISH_ORDINAL c"
  by (simp add: english_clean_text_def)

lemma compute_english_eq:
  "compute_english_gematria lower upper text =
     (let cs = english_clean_text lower text
      in if cs = [] then Inr ([], [])
         else Inr ([(''English Ordinal'', sum_list (map (\<lambda>c. dict_get ENGLISH_ORDINAL c 0) cs)),
                    (''Full Reduction'', sum_list (map (\<lambda>c. dict_get ENGLISH_REDUCTION c 0) cs)),
                    (''Reverse Ordinal'', sum_list (map (\<lambda>c. dict_get ENGLISH_REVERSE_ORDINAL c 0) cs)),
                    (''Reverse Reduction'', sum_list (map (\<lambda>c. dict_get ENGLISH_REVERSE_REDUCTION c 0) cs))],
                   map (\<lambda>c. \<lparr>en_Letter = upper c,
                        Ordinal = dict_get ENGLISH_ORDINAL c 0,
                        Reduction = dict_get ENGLISH_REDUCTION c 0,
                        Rev_Ordinal = dict_get ENGLISH_REVERSE_ORDINAL c 0,
                        Rev_Reduction = dict_get ENGLISH_REVERSE_REDUCTION c 0\<rparr>) cs))"
proof -
  let ?cs = "english_clean_text lower text"
  have k: "\<forall>c \<in> set ?cs. dict_contains ENGLISH_ORDINAL c"
    by (rule clean_text_keys)
  have k2: "\<forall>c \<in> set ?cs. dict_contains ENGLISH_REDUCTION c"
    "\<forall>c \<in> set ?cs. dict_contains ENGLISH_REVERSE_ORDINAL c"
    "\<forall>c \<in> set ?cs. dict_contains ENGLISH_REVERSE_REDUCTION c"
    using k by (simp_all only: english_same_keys)
  have e: "text = [] \<Longrightarrow> ?cs = []"
    by (simp add: english_clean_text_def chars_def)
  show ?thesis
    unfolding compute_english_gematria_def Let_def
      sum_items_eq [OF k] sum_items_eq [OF k2(1)] sum_items_eq [OF k2(2)] sum_items_eq [OF k2(3)]
      english_breakdown_eq [OF k]
    using e by (simp del: map_map)
qed

lemma english_example:
  "compute_english_gematria py_lower py_upper [97, 98, 99] =
     Inr ([(''English Ordinal'', 6), (''Full Reduction'', 6),
           (''Reverse Ordinal'', 75), (''Reverse Reduction'', 21)],
          [\<lparr>en_Letter = [65], Ordinal = 1, Reduction = 1, Rev_Ordinal = 26, Rev_Reduction = 8\<rparr>,
           \<lparr>en_Letter = [66], Ordinal = 2, Reduction = 2, Rev_Ordinal = 25, Rev_Reduction = 7\<rparr>,
           \<lparr>en_Letter = [67], Ordinal = 3, Reduction = 3, Rev_Ordinal = 24, Rev_Reduction = 6\<rparr>])"
  by (simp add: compute_english_gematria_def py_lower_def lower_cp_def py_upper_def upper_cp_def
        chars_def dict_contains_def dict_getitem_def ENGLISH_ORDINAL_def ENGLISH_REDUCTION_def
        ENGLISH_REVERSE_ORDINAL_def ENGLISH_REVERSE_REDUCTION_def english_clean_text_def upt_rec)

lemma getitem_get: "dict_getitem d k = Inr v \<Longrightarrow> dict_get d k dflt = v"
  unfolding dict_getitem_def dict_get_def by (cases "map_of d k") simp_all

section \<open>Word count\<close>

lemma split_scan_count:
  "length (split_scan cur s) =
     (if cur = [] then 0 else 1) +
     length (filter (\<lambda>i. \<not> isspace (s ! i) \<and> (if i = 0 then cur = [] else isspace (s ! (i - 1))))
                    [0..<length s])"
proof (induction s arbitrary: cur)
  case Nil
  then show ?case by simp
next
  case (Cons c cs)
  have shift: "[0..<length (c # cs)] = 0 # map Suc [0..<length cs]"
    by (simp add: upt_conv_Cons map_Suc_upt del: upt_Suc)
  have tail: "filter (\<lambda>i. \<not> isspace ((c # cs) ! i) \<and>
                 (if i = 0 then cur = [] else isspace ((c # cs) ! (i - 1))))
               (map Suc [0..<length cs]) =
             map Suc (filter (\<lambda>i. \<not> isspace (cs ! i) \<and>
                 (if i = 0 then isspace c else isspace (cs ! (i - 1)))) [0..<length cs])"
    by (simp add: filter_map comp_def nth_Cons' cong: if_cong)
  show ?case
  proof (cases "isspace c")
    case True
    then show ?thesis
      unfolding shift using tail by (simp add: Cons.IH [of "[]"])
  next
    case False
    then show ?thesis
      unfolding shift using tail by (simp add: Cons.IH [of "cur @ [c]"])
  qed
qed

lemma str_split_count: "length (str_split s) = count_tokens s"
proof -
  have "(\<lambda>i. \<not> isspace (s ! i) \<and> (if i = 0 then ([]::pystr) = [] else isspace (s ! (i - 1)))) =
        (\<lambda>i. \<not> isspace (s ! i) \<and> (i = 0 \<or> isspace (s ! (i - 1))))"
    by auto
  then show ?thesis
    by (simp add: str_split_def count_tokens_def split_scan_count [of "[]" s])
qed

section \<open>Claims about the Hebrew engine\<close>

text \<open>
  Claim C3, as stated: a string none of whose characters is a Hebrew letter gets
  \<open>Letters\<close>, \<open>Standard\<close> and \<open>Mispar Katan\<close> 0 and an empty breakdown.  It fails for the
  one-character string U+2135 (ALEF SYMBOL, a letter-like mathematical symbol outside
  the table): NFKD turns it into U+05D0 (alef), which is counted with value 1.
\<close>

theorem hebrew_no_letters_counterexample:
  "\<not> dict_contains HEBREW_VALUES [0x2135] \<and>
   py_nfkd [0x2135] = [0x5D0] \<and>
   compute_hebrew_gematria py_nfkd [0x2135] =
     Inr ([(''Standard'', 1), (''Mispar Katan'', 1), (''Letters'', 1), (''Words'', 1)],
          [\<lparr>he_Letter = [0x5D0], Value = 1, Small = 1\<rparr>])"
  by (simp add: compute_hebrew_gematria_def py_nfkd_def decompose_def chars_def dict_contains_def
        dict_getitem_def HEBREW_VALUES_def str_split_def isspace_def)

text \<open>
  Claim C3, amended: when the normalised string has no character of the Hebrew table,
  the result is \<open>Standard\<close> 0, \<open>Mispar Katan\<close> 0, \<open>Letters\<close> 0, the word count of the
  original string, and an empty breakdown.  The membership test is on the text after
  normalisation, whatever the normaliser does.
\<close>

theorem hebrew_no_letters_after_nfkd:
  "(\<forall>c \<in> set (chars (nfkd s)). \<not> dict_contains HEBREW_VALUES c) \<Longrightarrow>
   compute_hebrew_gematria nfkd s =
     Inr ([(''Standard'', 0), (''Mispar Katan'', 0), (''Letters'', 0),
           (''Words'', int (length (str_split s)))], [])"
proof -
  assume "\<forall>c \<in> set (chars (nfkd s)). \<not> dict_contains HEBREW_VALUES c"
  then have "filter (dict_contains HEBREW_VALUES) (chars (nfkd s)) = []"
    by (simp add: filter_empty_conv)
  then show ?thesis
    by (simp add: compute_hebrew_eq)
qed

theorem hebrew_no_letters_after_nfkd_witness:
  "list_all (\<lambda>c. \<not> dict_contains HEBREW_VALUES c) (chars (py_nfkd [0x68, 0x69, 0x20, 0x5B4])) \<and>
   compute_hebrew_gematria py_nfkd [0x68, 0x69, 0x20, 0x5B4] =
     Inr ([(''Standard'', 0), (''Mispar Katan'', 0), (''Letters'', 0), (''Words'', 2)], [])"
proof -
  have h: "\<forall>c \<in> set (chars (py_nfkd [0x68, 0x69, 0x20, 0x5B4])). \<not> dict_contains HEBREW_VALUES c"
    by (simp add: py_nfkd_def decompose_def chars_def dict_contains_def HEBREW_VALUES_def)
  have w: "int (length (str_split [0x68, 0x69, 0x20, 0x5B4])) = 2"
    by (simp add: str_split_def isspace_def)
  from h have "list_all (\<lambda>c. \<not> dict_contains HEBREW_VALUES c) (chars (py_nfkd [0x68, 0x69, 0x20, 0x5B4]))"
    by (simp only: list_all_iff)
  with hebrew_no_letters_after_nfkd [of py_nfkd "[0x68, 0x69, 0x20, 0x5B4]", OF h] w show ?thesis
    by simp
qed

text \<open>
  Claim C4.  For every string, the totals of \<open>compute_hebrew_gematria\<close> have \<open>Words\<close> equal
  to the number of whitespace-delimited tokens of the original string: the length of
  \<open>text.split()\<close>, which is the number of positions where a token begins, and 0 for the
  empty string.  This holds whatever the normaliser does and whether or not a letter is
  recognised.
\<close>

theorem hebrew_words_is_token_count:
  "\<exists>totals breakdown.
     compute_hebrew_gematria nfkd s = Inr (totals, breakdown) \<and>
     dict_getitem totals ''Words'' = Inr (int (length (str_split s))) \<and>
     length (str_split s) = count_tokens s \<and>
     count_tokens [] = 0"
proof -
  have c: "length (str_split s) = count_tokens s"
    by (rule str_split_count)
  have z: "count_tokens [] = 0"
    by (simp add: count_tokens_def)
  show ?thesis
  proof (cases "s = [] \<or> filter (dict_contains HEBREW_VALUES) (chars (nfkd s)) = []")
    case True
    then have "compute_hebrew_gematria nfkd s =
       Inr ([(''Standard'', 0), (''Mispar Katan'', 0), (''Letters'', 0),
             (''Words'', int (length (str_split s)))], [])"
      by (simp add: compute_hebrew_eq)
    with c z show ?thesis
      by (simp add: dict_getitem_def)
  next
    case False
    then show ?thesis
      using c z by (simp add: compute_hebrew_eq Let_def dict_getitem_def)
  qed
qed

theorem hebrew_words_is_token_count_witness:
  "\<exists>totals breakdown.
     compute_hebrew_gematria py_nfkd [0x20, 0x5D0, 0x5D1, 0x9, 0x20, 0x61, 0x20] = Inr (totals, breakdown) \<and>
     dict_getitem totals ''Words'' = Inr 2 \<and>
     count_tokens [0x20, 0x5D0, 0x5D1, 0x9, 0x20, 0x61, 0x20] = 2"
proof -
  have w: "length (str_split [0x20, 0x5D0, 0x5D1, 0x9, 0x20, 0x61, 0x20]) = 2"
    by (simp add: str_split_def isspace_def)
  from hebrew_words_is_token_count [of py_nfkd "[0x20, 0x5D0, 0x5D1, 0x9, 0x20, 0x61, 0x20]"]
  show ?thesis
    unfolding w by auto
qed

section \<open>Claims about the English engine\<close>

lemma english_general:
  assumes "\<exists>c \<in> set text. dict_contains ENGLISH_ORDINAL (lower [c])"
  shows "\<exists>ords reds revs rreds breakdown.
       list_all2 (\<lambda>c v. dict_getitem ENGLISH_ORDINAL c = Inr v)
         (map (\<lambda>c. lower [c]) (filter (\<lambda>c. dict_contains ENGLISH_ORDINAL (lower [c])) text))
         ords \<and>
       list_all2 (\<lambda>c v. dict_getitem ENGLISH_REDUCTION c = Inr v)
         (map (\<lambda>c. lower [c]) (filter (\<lambda>c. dict_contains ENGLISH_ORDINAL (lower [c])) text))
         reds \<and>
       list_all2 (\<lambda>c v. dict_getitem ENGLISH_REVERSE_ORDINAL c = Inr v)
         (map (\<lambda>c. lower [c]) (filter (\<lambda>c. dict_contains ENGLISH_ORDINAL (lower [c])) text))
         revs \<and>
       list_all2 (\<lambda>c v. dict_getitem ENGLISH_REVERSE_REDUCTION c = Inr v)
         (map (\<lambda>c. lower [c]) (filter (\<lambda>c. dict_contains ENGLISH_ORDINAL (lower [c])) text))
         rreds \<and>
       compute_english_gematria lower upper text =
         Inr ([(''English Ordinal'', sum_list ords), (''Full Reduction'', sum_list reds),
               (''Reverse Ordinal'', sum_list revs), (''Reverse Reduction'', sum_list rreds)],
              breakdown)"
proof -
  let ?cs = "map (\<lambda>c. lower [c]) (filter (\<lambda>c. dict_contains ENGLISH_ORDINAL (lower [c])) text)"
  have cs: "english_clean_text lower text = ?cs"
    by (simp add: english_clean_text_def chars_def filter_map comp_def)
  from assms have ne: "?cs \<noteq> []"
    by (auto simp: filter_empty_conv)
  have k: "\<forall>c \<in> set ?cs. dict_contains ENGLISH_ORDINAL c"
    using clean_text_keys [of lower "text"] unfolding cs .
  have k2: "\<forall>c \<in> set ?cs. dict_contains ENGLISH_REDUCTION c"
    "\<forall>c \<in> set ?cs. dict_contains ENGLISH_REVERSE_ORDINAL c"
    "\<forall>c \<in> set ?cs. dict_contains ENGLISH_REVERSE_REDUCTION c"
    using k by (simp_all only: english_same_keys)
  note a = getitem_values [OF k, where dflt = 0] getitem_values [OF k2(1), where dflt = 0]
    getitem_values [OF k2(2), where dflt = 0] getitem_values [OF k2(3), where dflt = 0]
  have b: "compute_english_gematria lower upper text =
     Inr ([(''English Ordinal'', sum_list (map (\<lambda>c. dict_get ENGLISH_ORDINAL c 0) ?cs)),
           (''Full Reduction'', sum_list (map (\<lambda>c. dict_get ENGLISH_REDUCTION c 0) ?cs)),
           (''Reverse Ordinal'', sum_list (map (\<lambda>c. dict_get ENGLISH_REVERSE_ORDINAL c 0) ?cs)),
           (''Reverse Reduction'', sum_list (map (\<lambda>c. dict_get ENGLISH_REVERSE_REDUCTION c 0) ?cs))],
          map (\<lambda>c. \<lparr>en_Letter = upper c,
                        Ordinal = dict_get ENGLISH_ORDINAL c 0,
                        Reduction = dict_get ENGLISH_REDUCTION c 0,
                        Rev_Ordinal = dict_get ENGLISH_REVERSE_ORDINAL c 0,
                        Rev_Reduction = dict_get ENGLISH_REVERSE_REDUCTION c 0\<rparr>) ?cs)"
    using ne unfolding compute_english_eq cs Let_def by (simp del: map_map)
  from a b show ?thesis by (intro exI conjI)
qed

lemma english_tables:
  assumes "i < 26"
  shows "dict_getitem ENGLISH_ORDINAL [97 + i] = Inr (int i + 1) \<and>
         dict_getitem ENGLISH_REDUCTION [97 + i] = Inr (((int i + 1) - 1) mod 9 + 1) \<and>
         dict_getitem ENGLISH_REVERSE_ORDINAL [97 + i] = Inr (26 - int i) \<and>
         dict_getitem ENGLISH_REVERSE_REDUCTION [97 + i] = Inr (((26 - int i) - 1) mod 9 + 1)"
proof -
  have "(26 - int i) - 1 = 25 - int i" by simp
  with english_table_values [OF assms] show ?thesis by simp
qed

text \<open>
  Claim C2.  When at least one character of the text lowercases to a key of the English
  table, \<open>compute_english_gematria\<close> returns exactly the four totals \<open>English Ordinal\<close>,
  \<open>Full Reduction\<close>, \<open>Reverse Ordinal\<close> and \<open>Reverse Reduction\<close>, each the sum of the values of
  its table over the filtered letters: the lowercase forms of the characters of the text
  whose lowercase form is a key, every occurrence counted, in the order of the text.  The keys of the tables are the 26
  letters \<open>a\<close> .. \<open>z\<close> (code points 97 + i, i below 26); the ordinal of letter i is i + 1,
  its reduction is ((ordinal - 1) mod 9) + 1, its reverse ordinal is 26 - i, and its
  reverse reduction is the reduction of the reverse ordinal.  For \<open>abc\<close> the totals are
  6, 6, 75 (and 21).
\<close>

theorem english_totals_are_letter_sums:
  "((\<exists>c \<in> set text. dict_contains ENGLISH_ORDINAL (lower [c])) \<longrightarrow>
    (\<exists>ords reds revs rreds breakdown.
       list_all2 (\<lambda>c v. dict_getitem ENGLISH_ORDINAL c = Inr v)
         (map (\<lambda>c. lower [c]) (filter (\<lambda>c. dict_contains ENGLISH_ORDINAL (lower [c])) text))
         ords \<and>
       list_all2 (\<lambda>c v. dict_getitem ENGLISH_REDUCTION c = Inr v)
         (map (\<lambda>c. lower [c]) (filter (\<lambda>c. dict_contains ENGLISH_ORDINAL (lower [c])) text))
         reds \<and>
       list_all2 (\<lambda>c v. dict_getitem ENGLISH_REVERSE_ORDINAL c = Inr v)
         (map (\<lambda>c. lower [c]) (filter (\<lambda>c. dict_contains ENGLISH_ORDINAL (lower [c])) text))
         revs \<and>
       list_all2 (\<lambda>c v. dict_getitem ENGLISH_REVERSE_REDUCTION c = Inr v)
         (map (\<lambda>c. lower [c]) (filter (\<lambda>c. dict_contains ENGLISH_ORDINAL (lower [c])) text))
         rreds \<and>
       compute_english_gematria lower upper text =
         Inr ([(''English Ordinal'', sum_list ords), (''Full Reduction'', sum_list reds),
               (''Reverse Ordinal'', sum_list revs), (''Reverse Reduction'', sum_list rreds)],
              breakdown)))
   \<and> (dict_contains ENGLISH_ORDINAL k \<longleftrightarrow> (\<exists>i<26. k = [97 + i]))
   \<and> (i < 26 \<longrightarrow>
        dict_getitem ENGLISH_ORDINAL [97 + i] = Inr (int i + 1) \<and>
        dict_getitem ENGLISH_REDUCTION [97 + i] = Inr (((int i + 1) - 1) mod 9 + 1) \<and>
        dict_getitem ENGLISH_REVERSE_ORDINAL [97 + i] = Inr (26 - int i) \<and>
        dict_getitem ENGLISH_REVERSE_REDUCTION [97 + i] = Inr (((26 - int i) - 1) mod 9 + 1))
   \<and> compute_english_gematria py_lower py_upper [97, 98, 99] =
     Inr ([(''English Ordinal'', 6), (''Full Reduction'', 6),
           (''Reverse Ordinal'', 75), (''Reverse Reduction'', 21)],
          [\<lparr>en_Letter = [65], Ordinal = 1, Reduction = 1, Rev_Ordinal = 26, Rev_Reduction = 8\<rparr>,
           \<lparr>en_Letter = [66], Ordinal = 2, Reduction = 2, Rev_Ordinal = 25, Rev_Reduction = 7\<rparr>,
           \<lparr>en_Letter = [67], Ordinal = 3, Reduction = 3, Rev_Ordinal = 24, Rev_Reduction = 6\<rparr>])"
proof (intro conjI impI)
  assume "\<exists>c \<in> set text. dict_contains ENGLISH_ORDINAL (lower [c])"
  then show "\<exists>ords reds revs rreds breakdown.
       list_all2 (\<lambda>c v. dict_getitem ENGLISH_ORDINAL c = Inr v)
         (map (\<lambda>c. lower [c]) (filter (\<lambda>c. dict_contains ENGLISH_ORDINAL (lower [c])) text))
         ords \<and>
       list_all2 (\<lambda>c v. dict_getitem ENGLISH_REDUCTION c = Inr v)
         (map (\<lambda>c. lower [c]) (filter (\<lambda>c. dict_contains ENGLISH_ORDINAL (lower [c])) text))
         reds \<and>
       list_all2 (\<lambda>c v. dict_getitem ENGLISH_REVERSE_ORDINAL c = Inr v)
         (map (\<lambda>c. lower [c]) (filter (\<lambda>c. dict_contains ENGLISH_ORDINAL (lower [c])) text))
         revs \<and>
       list_all2 (\<lambda>c v. dict_getitem ENGLISH_REVERSE_REDUCTION c = Inr v)
         (map (\<lambda>c. lower [c]) (filter (\<lambda>c. dict_contains ENGLISH_ORDINAL (lower [c])) text))
         rreds \<and>
       compute_english_gematria lower upper text =
         Inr ([(''English Ordinal'', sum_list ords), (''Full Reduction'', sum_list reds),
               (''Reverse Ordinal'', sum_list revs), (''Reverse Reduction'', sum_list rreds)],
              breakdown)"
    by (rule english_general)
next
  show "dict_contains ENGLISH_ORDINAL k \<longleftrightarrow> (\<exists>i<26. k = [97 + i])"
    by (rule english_contains_iff)
next
  assume i: "i < 26"
  from english_tables [OF i] show "dict_getitem ENGLISH_ORDINAL [97 + i] = Inr (int i + 1)"
    and "dict_getitem ENGLISH_REDUCTION [97 + i] = Inr (((int i + 1) - 1) mod 9 + 1)"
    and "dict_getitem ENGLISH_REVERSE_ORDINAL [97 + i] = Inr (26 - int i)"
    and "dict_getitem ENGLISH_REVERSE_REDUCTION [97 + i] = Inr (((26 - int i) - 1) mod 9 + 1)"
    by blast+
next
  show "compute_english_gematria py_lower py_upper [97, 98, 99] =
     Inr ([(''English Ordinal'', 6), (''Full Reduction'', 6),
           (''Reverse Ordinal'', 75), (''Reverse Reduction'', 21)],
          [\<lparr>en_Letter = [65], Ordinal = 1, Reduction = 1, Rev_Ordinal = 26, Rev_Reduction = 8\<rparr>,
           \<lparr>en_Letter = [66], Ordinal = 2, Reduction = 2, Rev_Ordinal = 25, Rev_Reduction = 7\<rparr>,
           \<lparr>en_Letter = [67], Ordinal = 3, Reduction = 3, Rev_Ordinal = 24, Rev_Reduction = 6\<rparr>])"
    by (rule english_example)
qed

theorem english_totals_are_letter_sums_witness:
  "(\<exists>c \<in> set [72, 105, 33]. dict_contains ENGLISH_ORDINAL (py_lower [c])) \<and>
   map (\<lambda>c. py_lower [c]) (filter (\<lambda>c. dict_contains ENGLISH_ORDINAL (py_lower [c])) [72, 105, 33]) =
     [[104], [105]] \<and>
   (\<exists>breakdown. compute_english_gematria py_lower py_upper [72, 105, 33] =
      Inr ([(''English Ordinal'', 17), (''Full Reduction'', 17),
            (''Reverse Ordinal'', 37), (''Reverse Reduction'', 10)], breakdown)) \<and>
   (7 < (26::nat) \<and> dict_getitem ENGLISH_ORDINAL [104] = Inr 8 \<and>
    dict_getitem ENGLISH_REVERSE_REDUCTION [104] = Inr 1)"
proof -
  have c: "map (\<lambda>c. py_lower [c])
             (filter (\<lambda>c. dict_contains ENGLISH_ORDINAL (py_lower [c])) [72, 105, 33]) =
           [[104], [105]]"
    by (simp add: py_lower_def lower_cp_def dict_contains_def ENGLISH_ORDINAL_def upt_rec)
  have h: "\<exists>c \<in> set [72, 105, 33]. dict_contains ENGLISH_ORDINAL (py_lower [c])"
    by (simp add: py_lower_def lower_cp_def dict_contains_def ENGLISH_ORDINAL_def upt_rec)
  note t = english_totals_are_letter_sums [of "[72, 105, 33]" py_lower py_upper "[104]" 7]
  from t have tab: "dict_getitem ENGLISH_ORDINAL [104] = Inr 8"
    "dict_getitem ENGLISH_REVERSE_REDUCTION [104] = Inr 1"
    by simp_all
  from t h obtain ords reds revs rreds breakdown where
    l: "list_all2 (\<lambda>c v. dict_getitem ENGLISH_ORDINAL c = Inr v) [[104], [105]] ords"
       "list_all2 (\<lambda>c v. dict_getitem ENGLISH_REDUCTION c = Inr v) [[104], [105]] reds"
       "list_all2 (\<lambda>c v. dict_getitem ENGLISH_REVERSE_ORDINAL c = Inr v) [[104], [105]] revs"
       "list_all2 (\<lambda>c v. dict_getitem ENGLISH_REVERSE_REDUCTION c = Inr v) [[104], [105]] rreds"
    and r: "compute_english_gematria py_lower py_upper [72, 105, 33] =
         Inr ([(''English Ordinal'', sum_list ords), (''Full Reduction'', sum_list reds),
               (''Reverse Ordinal'', sum_list revs), (''Reverse Reduction'', sum_list rreds)],
              breakdown)"
    unfolding c by blast
  have v: "dict_getitem ENGLISH_ORDINAL [104] = Inr 8" "dict_getitem ENGLISH_ORDINAL [105] = Inr 9"
    "dict_getitem ENGLISH_REDUCTION [104] = Inr 8" "dict_getitem ENGLISH_REDUCTION [105] = Inr 9"
    "dict_getitem ENGLISH_REVERSE_ORDINAL [104] = Inr 19" "dict_getitem ENGLISH_REVERSE_ORDINAL [105] = Inr 18"
    "dict_getitem ENGLISH_REVERSE_REDUCTION [104] = Inr 1" "dict_getitem ENGLISH_REVERSE_REDUCTION [105] = Inr 9"
    using english_table_values [of 7] english_table_values [of 8] by simp_all
  from l have "ords = [8, 9]" "reds = [8, 9]" "revs = [19, 18]" "rreds = [1, 9]"
    by (auto simp: list_all2_Cons1 v)
  with r have "compute_english_gematria py_lower py_upper [72, 105, 33] =
      Inr ([(''English Ordinal'', 17), (''Full Reduction'', 17),
            (''Reverse Ordinal'', 37), (''Reverse Reduction'', 10)], breakdown)"
    by simp
  with h c tab show ?thesis by auto
qed

text \<open>
  Claim C5.  When no character of the text lowercases to a key of the English table (in
  particular for the empty text), \<open>compute_english_gematria\<close> returns the empty totals
  mapping and the empty breakdown, and does not raise.
\<close>

theorem english_no_letters_empty:
  "(\<forall>c \<in> set (chars text). \<not> dict_contains ENGLISH_ORDINAL (lower c)) \<Longrightarrow>
   compute_english_gematria lower upper text = Inr ([], [])"
proof -
  assume "\<forall>c \<in> set (chars text). \<not> dict_contains ENGLISH_ORDINAL (lower c)"
  then have "english_clean_text lower text = []"
    by (simp add: english_clean_text_def filter_empty_conv)
  then show ?thesis
    by (simp add: compute_english_eq)
qed

theorem english_no_letters_empty_witness:
  "list_all (\<lambda>c. \<not> dict_contains ENGLISH_ORDINAL (py_lower c)) (chars [49, 50, 51]) \<and>
   compute_english_gematria py_lower py_upper [49, 50, 51] = Inr ([], []) \<and>
   list_all (\<lambda>c. \<not> dict_contains ENGLISH_ORDINAL (py_lower c)) (chars []) \<and>
   compute_english_gematria py_lower py_upper [] = Inr ([], [])"
proof -
  have h1: "\<forall>c \<in> set (chars [49, 50, 51]). \<not> dict_contains ENGLISH_ORDINAL (py_lower c)"
    by (simp add: py_lower_def lower_cp_def chars_def dict_contains_def ENGLISH_ORDINAL_def upt_rec)
  have h2: "\<forall>c \<in> set (chars []). \<not> dict_contains ENGLISH_ORDINAL (py_lower c)"
    by (simp add: chars_def)
  from h1 h2 have l: "list_all (\<lambda>c. \<not> dict_contains ENGLISH_ORDINAL (py_lower c)) (chars [49, 50, 51])"
    "list_all (\<lambda>c. \<not> dict_contains ENGLISH_ORDINAL (py_lower c)) (chars [])"
    by (simp_all only: list_all_iff)
  from english_no_letters_empty [of "[49, 50, 51]" py_lower py_upper, OF h1]
    english_no_letters_empty [of "[]" py_lower py_upper, OF h2] l
  show ?thesis by (intro conjI)
qed

lemma english_reverse_is_27_minus:
  assumes "dict_contains ENGLISH_ORDINAL k"
  shows "\<exists>v. dict_getitem ENGLISH_ORDINAL k = Inr v \<and>
             dict_getitem ENGLISH_REVERSE_ORDINAL k = Inr (27 - v)"
proof -
  from assms obtain i where i: "i < 26" and k: "k = [97 + i]"
    unfolding english_contains_iff by blast
  have e: "26 - int i = 27 - (int i + 1)" by simp
  have "dict_getitem ENGLISH_ORDINAL [97 + i] = Inr (int i + 1) \<and>
        dict_getitem ENGLISH_REVERSE_ORDINAL [97 + i] = Inr (27 - (int i + 1))"
    using english_table_values(1,3) [OF i] unfolding e by (intro conjI)
  then show ?thesis
    unfolding k by (rule exI)
qed

lemma lower_cp_letter:
  assumes "(65 \<le> c \<and> c \<le> 90) \<or> (97 \<le> c \<and> c \<le> 122)"
  shows "\<exists>i<26. lower_cp c = 97 + i"
  using assms
proof
  assume u: "65 \<le> c \<and> c \<le> 90"
  then have "lower_cp c = c + 32"
    by (simp add: lower_cp_def)
  moreover from u have "c - 65 < 26" and "c + 32 = 97 + (c - 65)"
    by linarith+
  ultimately show ?thesis by metis
next
  assume l: "97 \<le> c \<and> c \<le> 122"
  then have "lower_cp c = c"
    by (simp add: lower_cp_def)
  moreover from l have "c - 97 < 26" and "c = 97 + (c - 97)"
    by linarith+
  ultimately show ?thesis by metis
qed

lemma letter_lower_key:
  assumes "(65 \<le> c \<and> c \<le> 90) \<or> (97 \<le> c \<and> c \<le> 122)"
  shows "dict_contains ENGLISH_ORDINAL (py_lower [c])"
proof -
  have "py_lower [c] = [lower_cp c]"
    by (simp add: py_lower_def)
  with lower_cp_letter [OF assms] have "\<exists>i<26. py_lower [c] = [97 + i]"
    by simp
  then show ?thesis
    by (simp only: english_contains_iff)
qed

text \<open>
  Claim C7, as stated, fails on the empty string, which consists of letters only
  (vacuously): the totals mapping is then empty, so it has no \<open>Reverse Ordinal\<close> entry to
  equal the empty sum 0; the subscription raises \<open>KeyError\<close>.
\<close>

theorem reverse_ordinal_counterexample:
  "compute_english_gematria py_lower py_upper [] = Inr ([], []) \<and>
   dict_getitem ([] :: totals) ''Reverse Ordinal'' = Inl KeyError \<and>
   dict_getitem ([] :: totals) ''Reverse Ordinal'' \<noteq>
     Inr (sum_list (map (\<lambda>c. 27 - dict_get ENGLISH_ORDINAL (py_lower [c]) 0) []))"
  by (simp add: compute_english_gematria_def dict_getitem_def)

text \<open>
  Claim C7, amended.  Every key of the ordinal table has reverse ordinal 27 minus its
  ordinal; and for every non-empty string of letters \<open>a\<close> .. \<open>z\<close>, \<open>A\<close> .. \<open>Z\<close> only, the
  \<open>Reverse Ordinal\<close> total is the sum of 27 minus the ordinal of the lowercased letter, over
  all characters of the string.
\<close>

theorem reverse_ordinal_is_27_minus_ordinal:
  "(dict_contains ENGLISH_ORDINAL k \<longrightarrow>
      (\<exists>v. dict_getitem ENGLISH_ORDINAL k = Inr v \<and>
           dict_getitem ENGLISH_REVERSE_ORDINAL k = Inr (27 - v)))
   \<and> (s \<noteq> [] \<longrightarrow> (\<forall>c \<in> set s. (65 \<le> c \<and> c \<le> 90) \<or> (97 \<le> c \<and> c \<le> 122)) \<longrightarrow>
      (\<exists>ords totals breakdown.
         list_all2 (\<lambda>c v. dict_getitem ENGLISH_ORDINAL (py_lower [c]) = Inr v) s ords \<and>
         compute_english_gematria py_lower upper s = Inr (totals, breakdown) \<and>
         dict_getitem totals ''Reverse Ordinal'' = Inr (sum_list (map (\<lambda>v. 27 - v) ords))))"
proof (intro conjI impI)
  assume "dict_contains ENGLISH_ORDINAL k"
  then show "\<exists>v. dict_getitem ENGLISH_ORDINAL k = Inr v \<and>
           dict_getitem ENGLISH_REVERSE_ORDINAL k = Inr (27 - v)"
    by (rule english_reverse_is_27_minus)
next
  assume ne: "s \<noteq> []"
    and letters: "\<forall>c \<in> set s. (65 \<le> c \<and> c \<le> 90) \<or> (97 \<le> c \<and> c \<le> 122)"
  let ?ords = "map (\<lambda>c. dict_get ENGLISH_ORDINAL (py_lower [c]) 0) s"
  from letters have keys: "\<forall>c \<in> set s. dict_contains ENGLISH_ORDINAL (py_lower [c])"
    using letter_lower_key by blast
  then have clean: "english_clean_text py_lower s = map (\<lambda>c. py_lower [c]) s"
    by (simp add: english_clean_text_def chars_def filter_map comp_def)
  have a: "list_all2 (\<lambda>c v. dict_getitem ENGLISH_ORDINAL (py_lower [c]) = Inr v) s ?ords"
    using keys by (induction s) (simp_all add: contains_getitem [where dflt = 0])
  have rev: "dict_get ENGLISH_REVERSE_ORDINAL (py_lower [c]) 0 =
             27 - dict_get ENGLISH_ORDINAL (py_lower [c]) 0" if "c \<in> set s" for c
  proof -
    from that keys have "dict_contains ENGLISH_ORDINAL (py_lower [c])" by blast
    from english_reverse_is_27_minus [OF this] show ?thesis
      by (auto simp: getitem_get)
  qed
  have sum: "sum_list (map (\<lambda>c. dict_get ENGLISH_REVERSE_ORDINAL c 0) (map (\<lambda>c. py_lower [c]) s)) =
             sum_list (map (\<lambda>v. 27 - v) ?ords)"
    using rev by (simp add: comp_def cong: map_cong)
  let ?totals = "[(''English Ordinal'', sum_list (map (\<lambda>c. dict_get ENGLISH_ORDINAL c 0) (map (\<lambda>c. py_lower [c]) s))),
                  (''Full Reduction'', sum_list (map (\<lambda>c. dict_get ENGLISH_REDUCTION c 0) (map (\<lambda>c. py_lower [c]) s))),
                  (''Reverse Ordinal'', sum_list (map (\<lambda>c. dict_get ENGLISH_REVERSE_ORDINAL c 0) (map (\<lambda>c. py_lower [c]) s))),
                  (''Reverse Reduction'', sum_list (map (\<lambda>c. dict_get ENGLISH_REVERSE_REDUCTION c 0) (map (\<lambda>c. py_lower [c]) s)))]"
  from ne have cne: "map (\<lambda>c. py_lower [c]) s \<noteq> []"
    by simp
  have "\<exists>breakdown. compute_english_gematria py_lower upper s = Inr (?totals, breakdown)"
    unfolding compute_english_eq clean Let_def if_not_P [OF cne] by blast
  then obtain breakdown where
    r: "compute_english_gematria py_lower upper s = Inr (?totals, breakdown)"
    by blast
  have t: "dict_getitem ?totals ''Reverse Ordinal'' =
              Inr (sum_list (map (\<lambda>c. dict_get ENGLISH_REVERSE_ORDINAL c 0) (map (\<lambda>c. py_lower [c]) s)))"
    by (simp add: dict_getitem_def del: map_map)
  from a r t show "\<exists>ords totals breakdown.
         list_all2 (\<lambda>c v. dict_getitem ENGLISH_ORDINAL (py_lower [c]) = Inr v) s ords \<and>
         compute_english_gematria py_lower upper s = Inr (totals, breakdown) \<and>
         dict_getitem totals ''Reverse Ordinal'' = Inr (sum_list (map (\<lambda>v. 27 - v) ords))"
    unfolding sum by blast
qed

theorem reverse_ordinal_is_27_minus_ordinal_witness:
  "dict_contains ENGLISH_ORDINAL [122] \<and>
   dict_getitem ENGLISH_ORDINAL [122] = Inr 26 \<and>
   dict_getitem ENGLISH_REVERSE_ORDINAL [122] = Inr 1 \<and>
   [65, 122] \<noteq> ([] :: pystr) \<and>
   list_all (\<lambda>c. (65 \<le> c \<and> c \<le> 90) \<or> (97 \<le> c \<and> c \<le> 122)) [65, 122 :: nat] \<and>
   (\<exists>totals breakdown.
      compute_english_gematria py_lower py_upper [65, 122] = Inr (totals, breakdown) \<and>
      dict_getitem totals ''Reverse Ordinal'' = Inr 27)"
proof -
  have h0: "dict_contains ENGLISH_ORDINAL [122]"
    using english_contains_iff [of "[122]"] by simp
  have h1: "[65, 122] \<noteq> ([] :: pystr)" by simp
  have h2: "\<forall>c \<in> set [65, 122 :: nat]. (65 \<le> c \<and> c \<le> 90) \<or> (97 \<le> c \<and> c \<le> 122)" by simp
  note t = reverse_ordinal_is_27_minus_ordinal [of "[122]" "[65, 122]" py_upper]
  have v: "dict_getitem ENGLISH_ORDINAL [97] = Inr 1" "dict_getitem ENGLISH_ORDINAL [122] = Inr 26"
    using english_table_values(1) [of 0] english_table_values(1) [of 25] by simp_all
  from t [THEN conjunct1, THEN mp, OF h0] obtain x where
    "dict_getitem ENGLISH_ORDINAL [122] = Inr x"
    "dict_getitem ENGLISH_REVERSE_ORDINAL [122] = Inr (27 - x)"
    by blast
  with v(2) have r: "dict_getitem ENGLISH_REVERSE_ORDINAL [122] = Inr 1"
    by simp
  from t [THEN conjunct2, THEN mp, OF h1, THEN mp, OF h2] obtain ords totals breakdown where
    l: "list_all2 (\<lambda>c v. dict_getitem ENGLISH_ORDINAL (py_lower [c]) = Inr v) [65, 122] ords"
    and c: "compute_english_gematria py_lower py_upper [65, 122] = Inr (totals, breakdown)"
    and s: "dict_getitem totals ''Reverse Ordinal'' = Inr (sum_list (map (\<lambda>v. 27 - v) ords))"
    by blast
  have lw: "py_lower [65] = [97]" "py_lower [122] = [122]"
    by (simp_all add: py_lower_def lower_cp_def)
  from l obtain a b where ab: "ords = [a, b]"
    and "dict_getitem ENGLISH_ORDINAL (py_lower [65]) = Inr a"
    and "dict_getitem ENGLISH_ORDINAL (py_lower [122]) = Inr b"
    by (auto simp only: list_all2_Cons1 list_all2_Nil)
  then have "a = 1" "b = 26"
    unfolding lw v by simp_all
  with ab s have s': "dict_getitem totals ''Reverse Ordinal'' = Inr 27" by simp
  from c s' have "\<exists>totals breakdown.
      compute_english_gematria py_lower py_upper [65, 122] = Inr (totals, breakdown) \<and>
      dict_getitem totals ''Reverse Ordinal'' = Inr 27"
    by blast
  moreover from h2
  have "list_all (\<lambda>c. (65 \<le> c \<and> c \<le> 90) \<or> (97 \<le> c \<and> c \<le> 122)) [65, 122 :: nat]"
    by (simp only: list_all_iff)
  ultimately show ?thesis
    using h0 v(2) r h1 by (intro conjI)
qed

section \<open>Totality and consistency of both engines\<close>

text \<open>
  Claim C6.  For every input string, whatever the three library functions return,
  \<open>compute_hebrew_gematria\<close> and \<open>compute_english_gematria\<close> return a result and never raise
  \<open>KeyError\<close>: a key that passed the membership test of the Hebrew table is found by the
  subscription, and a key that passed the membership test of \<open>ENGLISH_ORDINAL\<close> is found in
  all four English tables, which have the same keys.
\<close>

theorem engines_never_raise:
  "(\<exists>totals breakdown. compute_hebrew_gematria nfkd text = Inr (totals, breakdown)) \<and>
   (\<exists>totals breakdown. compute_english_gematria lower upper text = Inr (totals, breakdown)) \<and>
   (dict_contains HEBREW_VALUES k \<longrightarrow> (\<exists>v. dict_getitem HEBREW_VALUES k = Inr v)) \<and>
   (dict_contains ENGLISH_ORDINAL k \<longrightarrow>
      (\<exists>v1 v2 v3 v4.
         dict_getitem ENGLISH_ORDINAL k = Inr v1 \<and>
         dict_getitem ENGLISH_REDUCTION k = Inr v2 \<and>
         dict_getitem ENGLISH_REVERSE_ORDINAL k = Inr v3 \<and>
         dict_getitem ENGLISH_REVERSE_REDUCTION k = Inr v4))"
proof (intro conjI impI)
  show "\<exists>totals breakdown. compute_hebrew_gematria nfkd text = Inr (totals, breakdown)"
    by (cases "compute_hebrew_gematria nfkd text")
      (simp_all add: compute_hebrew_eq Let_def split: if_splits)
next
  show "\<exists>totals breakdown. compute_english_gematria lower upper text = Inr (totals, breakdown)"
    by (cases "compute_english_gematria lower upper text")
      (simp_all add: compute_english_eq Let_def split: if_splits)
next
  assume "dict_contains HEBREW_VALUES k"
  then show "\<exists>v. dict_getitem HEBREW_VALUES k = Inr v"
    using contains_getitem [of HEBREW_VALUES k 0] by blast
next
  assume a: "dict_contains ENGLISH_ORDINAL k"
  then have "dict_contains ENGLISH_REDUCTION k" "dict_contains ENGLISH_REVERSE_ORDINAL k"
    "dict_contains ENGLISH_REVERSE_REDUCTION k"
    by (simp_all only: english_same_keys)
  with a show "\<exists>v1 v2 v3 v4.
         dict_getitem ENGLISH_ORDINAL k = Inr v1 \<and>
         dict_getitem ENGLISH_REDUCTION k = Inr v2 \<and>
         dict_getitem ENGLISH_REVERSE_ORDINAL k = Inr v3 \<and>
         dict_getitem ENGLISH_REVERSE_REDUCTION k = Inr v4"
    using contains_getitem [of ENGLISH_ORDINAL k 0] contains_getitem [of ENGLISH_REDUCTION k 0]
      contains_getitem [of ENGLISH_REVERSE_ORDINAL k 0]
      contains_getitem [of ENGLISH_REVERSE_REDUCTION k 0]
    by blast
qed

theorem engines_never_raise_witness:
  "(\<exists>totals breakdown.
      compute_hebrew_gematria py_nfkd [0x61, 0x5D0, 0x20, 0x3042] = Inr (totals, breakdown)) \<and>
   (\<exists>totals breakdown.
      compute_english_gematria py_lower py_upper [0x61, 0x5D0, 0x20, 0x3042] = Inr (totals, breakdown)) \<and>
   dict_contains HEBREW_VALUES [0x5EA] \<and> dict_getitem HEBREW_VALUES [0x5EA] = Inr 400 \<and>
   dict_contains ENGLISH_ORDINAL [109] \<and>
   (\<exists>v1 v2 v3 v4.
         dict_getitem ENGLISH_ORDINAL [109] = Inr v1 \<and>
         dict_getitem ENGLISH_REDUCTION [109] = Inr v2 \<and>
         dict_getitem ENGLISH_REVERSE_ORDINAL [109] = Inr v3 \<and>
         dict_getitem ENGLISH_REVERSE_REDUCTION [109] = Inr v4)"
proof -
  note t = engines_never_raise [of py_nfkd "[0x61, 0x5D0, 0x20, 0x3042]" py_lower py_upper]
  have h1: "dict_contains HEBREW_VALUES [0x5EA]"
    by (simp add: dict_contains_def HEBREW_VALUES_def)
  have v1: "dict_getitem HEBREW_VALUES [0x5EA] = Inr 400"
    by (simp add: dict_getitem_def HEBREW_VALUES_def)
  have h2: "dict_contains ENGLISH_ORDINAL [109]"
    using english_contains_iff [of "[109]"] by simp
  note a = t [of "[109]", THEN conjunct1]
  note b = t [of "[109]", THEN conjunct2, THEN conjunct1]
  note c = t [of "[109]", THEN conjunct2, THEN conjunct2, THEN conjunct2, THEN mp, OF h2]
  from a b h1 v1 h2 c show ?thesis
    by (intro conjI)
qed

lemma hebrew_breakdown_columns:
  "map Value (map (\<lambda>(c, v). \<lparr>he_Letter = c, Value = v, Small = f v\<rparr>) (zip ls (map g ls))) = map g ls"
  "map Small (map (\<lambda>(c, v). \<lparr>he_Letter = c, Value = v, Small = f v\<rparr>) (zip ls (map g ls))) =
     map f (map g ls)"
  "length (map (\<lambda>(c, v). \<lparr>he_Letter = c, Value = v, Small = f v\<rparr>) (zip ls (map g ls))) = length ls"
  by (induction ls) simp_all

text \<open>
  Claim C10.  The totals agree with the breakdown.  For the Hebrew engine, on every
  input, \<open>Letters\<close> is the length of the breakdown, \<open>Standard\<close> the sum of its \<open>Value\<close> fields
  and \<open>Mispar Katan\<close> the sum of its \<open>Small\<close> fields.  For the English engine, each of the
  four totals, when present, is the sum of its column of the breakdown; and when the
  totals are empty so is the breakdown.
\<close>

theorem totals_match_breakdown:
  "(compute_hebrew_gematria nfkd text = Inr (totals, breakdown) \<longrightarrow>
      dict_getitem totals ''Letters'' = Inr (int (length breakdown)) \<and>
      dict_getitem totals ''Standard'' = Inr (sum_list (map Value breakdown)) \<and>
      dict_getitem totals ''Mispar Katan'' = Inr (sum_list (map Small breakdown)))
   \<and> (compute_english_gematria lower upper etext = Inr (etotals, ebreakdown) \<longrightarrow>
      (\<forall>v. dict_getitem etotals ''English Ordinal'' = Inr v \<longrightarrow> v = sum_list (map Ordinal ebreakdown)) \<and>
      (\<forall>v. dict_getitem etotals ''Full Reduction'' = Inr v \<longrightarrow> v = sum_list (map Reduction ebreakdown)) \<and>
      (\<forall>v. dict_getitem etotals ''Reverse Ordinal'' = Inr v \<longrightarrow> v = sum_list (map Rev_Ordinal ebreakdown)) \<and>
      (\<forall>v. dict_getitem etotals ''Reverse Reduction'' = Inr v \<longrightarrow>
             v = sum_list (map Rev_Reduction ebreakdown)) \<and>
      (etotals = [] \<longleftrightarrow> ebreakdown = []))"
proof (intro conjI)
  show "compute_hebrew_gematria nfkd text = Inr (totals, breakdown) \<longrightarrow>
      dict_getitem totals ''Letters'' = Inr (int (length breakdown)) \<and>
      dict_getitem totals ''Standard'' = Inr (sum_list (map Value breakdown)) \<and>
      dict_getitem totals ''Mispar Katan'' = Inr (sum_list (map Small breakdown))"
  proof (cases "text = [] \<or> filter (dict_contains HEBREW_VALUES) (chars (nfkd text)) = []")
    case True
    then show ?thesis
      by (auto simp: compute_hebrew_eq dict_getitem_def)
  next
    case False
    then show ?thesis
      unfolding compute_hebrew_eq Let_def
      by (auto simp: dict_getitem_def hebrew_breakdown_columns simp del: map_map)
  qed
next
  show "compute_english_gematria lower upper etext = Inr (etotals, ebreakdown) \<longrightarrow>
      (\<forall>v. dict_getitem etotals ''English Ordinal'' = Inr v \<longrightarrow> v = sum_list (map Ordinal ebreakdown)) \<and>
      (\<forall>v. dict_getitem etotals ''Full Reduction'' = Inr v \<longrightarrow> v = sum_list (map Reduction ebreakdown)) \<and>
      (\<forall>v. dict_getitem etotals ''Reverse Ordinal'' = Inr v \<longrightarrow> v = sum_list (map Rev_Ordinal ebreakdown)) \<and>
      (\<forall>v. dict_getitem etotals ''Reverse Reduction'' = Inr v \<longrightarrow>
             v = sum_list (map Rev_Reduction ebreakdown)) \<and>
      (etotals = [] \<longleftrightarrow> ebreakdown = [])"
  proof (cases "english_clean_text lower etext = []")
    case True
    then show ?thesis
      by (auto simp: compute_english_eq dict_getitem_def)
  next
    case False
    then show ?thesis
      unfolding compute_english_eq Let_def
      by (auto simp: dict_getitem_def comp_def)
  qed
qed

theorem totals_match_breakdown_witness:
  "compute_hebrew_gematria py_nfkd [0x5E9, 0x5DC, 0x5D5, 0x5DD] =
     Inr ([(''Standard'', 376), (''Mispar Katan'', 16), (''Letters'', 4), (''Words'', 1)],
          [\<lparr>he_Letter = [0x5E9], Value = 300, Small = 3\<rparr>,
           \<lparr>he_Letter = [0x5DC], Value = 30, Small = 3\<rparr>,
           \<lparr>he_Letter = [0x5D5], Value = 6, Small = 6\<rparr>,
           \<lparr>he_Letter = [0x5DD], Value = 40, Small = 4\<rparr>]) \<and>
   376 = sum_list (map Value
          [\<lparr>he_Letter = [0x5E9], Value = 300, Small = 3\<rparr>,
           \<lparr>he_Letter = [0x5DC], Value = 30, Small = 3\<rparr>,
           \<lparr>he_Letter = [0x5D5], Value = 6, Small = 6\<rparr>,
           \<lparr>he_Letter = [0x5DD], Value = 40, Small = 4\<rparr>]) \<and>
   compute_english_gematria py_lower py_upper [97, 98, 99] =
     Inr ([(''English Ordinal'', 6), (''Full Reduction'', 6),
           (''Reverse Ordinal'', 75), (''Reverse Reduction'', 21)],
          [\<lparr>en_Letter = [65], Ordinal = 1, Reduction = 1, Rev_Ordinal = 26, Rev_Reduction = 8\<rparr>,
           \<lparr>en_Letter = [66], Ordinal = 2, Reduction = 2, Rev_Ordinal = 25, Rev_Reduction = 7\<rparr>,
           \<lparr>en_Letter = [67], Ordinal = 3, Reduction = 3, Rev_Ordinal = 24, Rev_Reduction = 6\<rparr>]) \<and>
   21 = sum_list (map Rev_Reduction
          [\<lparr>en_Letter = [65], Ordinal = 1, Reduction = 1, Rev_Ordinal = 26, Rev_Reduction = 8\<rparr>,
           \<lparr>en_Letter = [66], Ordinal = 2, Reduction = 2, Rev_Ordinal = 25, Rev_Reduction = 7\<rparr>,
           \<lparr>en_Letter = [67], Ordinal = 3, Reduction = 3, Rev_Ordinal = 24, Rev_Reduction = 6\<rparr>])"
proof -
  note t = totals_match_breakdown [of py_nfkd "[0x5E9, 0x5DC, 0x5D5, 0x5DD]" _ _
      py_lower py_upper "[97, 98, 99]"]
  note h = t [THEN conjunct1, THEN mp, OF hebrew_example, THEN conjunct2, THEN conjunct1]
  note e = t [THEN conjunct2, THEN mp, OF english_example, THEN conjunct2, THEN conjunct2,
      THEN conjunct2, THEN conjunct1, THEN spec, of 21]
  have h': "376 = sum_list (map Value
          [\<lparr>he_Letter = [0x5E9], Value = 300, Small = 3\<rparr>,
           \<lparr>he_Letter = [0x5DC], Value = 30, Small = 3\<rparr>,
           \<lparr>he_Letter = [0x5D5], Value = 6, Small = 6\<rparr>,
           \<lparr>he_Letter = [0x5DD], Value = 40, Small = 4\<rparr>])"
    using h by (simp add: dict_getitem_def)
  have e': "21 = sum_list (map Rev_Reduction
          [\<lparr>en_Letter = [65], Ordinal = 1, Reduction = 1, Rev_Ordinal = 26, Rev_Reduction = 8\<rparr>,
           \<lparr>en_Letter = [66], Ordinal = 2, Reduction = 2, Rev_Ordinal = 25, Rev_Reduction = 7\<rparr>,
           \<lparr>en_Letter = [67], Ordinal = 3, Reduction = 3, Rev_Ordinal = 24, Rev_Reduction = 6\<rparr>])"
    using e by (simp add: dict_getitem_def)
  from hebrew_example h' english_example e' show ?thesis
    by (intro conjI)
qed

section \<open>The recent-calculations log\<close>

lemma take_append_take: "take n (xs @ take n ys) = take n (xs @ ys)"
  by (simp add: min_def)

lemma update_history_nonblank:
  "str_strip t \<noteq> [] \<Longrightarrow> update_history t l r h = take 5 (make_entry t l r # h)"
  by (simp add: update_history_def)

lemma update_history_length: "length h \<le> 5 \<Longrightarrow> length (update_history t l r h) \<le> 5"
  by (simp add: update_history_def)

lemma run_updates_length: "length h \<le> 5 \<Longrightarrow> length (run_updates calls h) \<le> 5"
proof (induction calls arbitrary: h)
  case Nil
  then show ?case by simp
next
  case (Cons call calls)
  obtain t l r where call: "call = (t, l, r)"
    by (cases call) auto
  from Cons.prems have "length (update_history t l r h) \<le> 5"
    by (rule update_history_length)
  then show ?case
    unfolding call by (simp add: Cons.IH)
qed

lemma run_updates_nonblank:
  "\<forall>(t, l, r) \<in> set calls. str_strip t \<noteq> [] \<Longrightarrow>
   run_updates calls h =
     (if calls = [] then h
      else take 5 (rev (map (\<lambda>(t, l, r). make_entry t l r) calls) @ h))"
proof (induction calls arbitrary: h)
  case Nil
  then show ?case by simp
next
  case (Cons call calls)
  obtain t l r where call: "call = (t, l, r)"
    by (cases call) auto
  from Cons.prems have nb: "str_strip t \<noteq> []"
    and rest: "\<forall>(t, l, r) \<in> set calls. str_strip t \<noteq> []"
    unfolding call by auto
  have step: "run_updates (call # calls) h = run_updates calls (take 5 (make_entry t l r # h))"
    unfolding call by (simp add: update_history_nonblank [OF nb])
  show ?case
  proof (cases "calls = []")
    case True
    with step show ?thesis
      unfolding call by simp
  next
    case False
    with Cons.IH [OF rest, of "take 5 (make_entry t l r # h)"]
    have "run_updates calls (take 5 (make_entry t l r # h)) =
            take 5 (rev (map (\<lambda>(t, l, r). make_entry t l r) calls) @
                    take 5 (make_entry t l r # h))"
      by simp
    also have "\<dots> = take 5 (rev (map (\<lambda>(t, l, r). make_entry t l r) calls) @
                           (make_entry t l r # h))"
      by (rule take_append_take)
    finally show ?thesis
      using step unfolding call by simp
  qed
qed

text \<open>
  Claim C8.  The log starts empty and never has more than 5 entries.  Recording a
  calculation whose text is not blank puts the new entry at index 0 and keeps the first
  5 elements; a blank text leaves the log as it is.  After any such recordings the log
  is the first 5 of the new entries, newest first, followed by the old log; after 7 of
  them in sequence, from any log, it has exactly 5 entries: those of the 5 most recent
  calculations, the most recent at index 0.
\<close>

theorem history_capped_most_recent_first:
  "length (run_updates calls []) \<le> 5 \<and>
   (str_strip t \<noteq> [] \<longrightarrow>
      update_history t l r h = take 5 (make_entry t l r # h) \<and>
      update_history t l r h ! 0 = make_entry t l r) \<and>
   (length calls = 7 \<longrightarrow> (\<forall>(t, l, r) \<in> set calls. str_strip t \<noteq> []) \<longrightarrow>
      length (run_updates calls h) = 5 \<and>
      run_updates calls h = rev (map (\<lambda>(t, l, r). make_entry t l r) (drop 2 calls)) \<and>
      run_updates calls h ! 0 = (\<lambda>(t, l, r). make_entry t l r) (last calls)) \<and>
   (calls \<noteq> [] \<longrightarrow> (\<forall>(t, l, r) \<in> set calls. str_strip t \<noteq> []) \<longrightarrow>
      run_updates calls h = take 5 (rev (map (\<lambda>(t, l, r). make_entry t l r) calls) @ h)) \<and>
   (str_strip t = [] \<longrightarrow> update_history t l r h = h)"
proof (intro conjI impI)
  show "length (run_updates calls []) \<le> 5"
    by (rule run_updates_length) simp
next
  assume "str_strip t = []"
  then show "update_history t l r h = h"
    by (simp add: update_history_def)
next
  assume "calls \<noteq> []" and "\<forall>(t, l, r) \<in> set calls. str_strip t \<noteq> []"
  then show "run_updates calls h = take 5 (rev (map (\<lambda>(t, l, r). make_entry t l r) calls) @ h)"
    by (simp add: run_updates_nonblank)
next
  assume "str_strip t \<noteq> []"
  then show "update_history t l r h = take 5 (make_entry t l r # h)"
    by (rule update_history_nonblank)
next
  assume "str_strip t \<noteq> []"
  then show "update_history t l r h ! 0 = make_entry t l r"
    by (simp add: update_history_nonblank)
next
  assume len: "length calls = 7" and nb: "\<forall>(t, l, r) \<in> set calls. str_strip t \<noteq> []"
  let ?e = "\<lambda>(t, l, r). make_entry t l r"
  from len have "calls \<noteq> []"
    by auto
  with run_updates_nonblank [OF nb, of h]
  have run: "run_updates calls h = take 5 (rev (map ?e calls) @ h)"
    by simp
  have "take 5 (rev (map ?e calls) @ h) = take 5 (rev (map ?e calls))"
    using len by simp
  also have "\<dots> = rev (drop 2 (map ?e calls))"
    using len by (simp add: take_rev)
  also have "\<dots> = rev (map ?e (drop 2 calls))"
    by (simp add: drop_map)
  finally have eq: "run_updates calls h = rev (map ?e (drop 2 calls))"
    using run by simp
  show "run_updates calls h = rev (map ?e (drop 2 calls))"
    by (rule eq)
  show "length (run_updates calls h) = 5"
    unfolding eq using len by simp
  from len have ne: "drop 2 calls \<noteq> []"
    by auto
  have "rev (map ?e (drop 2 calls)) ! 0 = hd (rev (map ?e (drop 2 calls)))"
    using ne by (simp add: hd_conv_nth)
  also have "\<dots> = ?e (last (drop 2 calls))"
    using ne by (simp add: hd_rev last_map)
  also have "last (drop 2 calls) = last calls"
    using len by simp
  finally show "run_updates calls h ! 0 = ?e (last calls)"
    unfolding eq .
qed

theorem history_capped_most_recent_first_witness:
  "str_strip [49] \<noteq> [] \<and>
   update_history [49] True [(''Standard'', 1)] [] =
     [\<lparr>entry_text = [49], entry_lang = ''Hebrew'', entry_val = 1\<rparr>] \<and>
   length [([49], True, [(''Standard'', 1)]),
      ([50], True, [(''Standard'', 2)]),
      ([51], True, [(''Standard'', 3)]),
      ([52], True, [(''Standard'', 4)]),
      ([53], True, [(''Standard'', 5)]),
      ([54], True, [(''Standard'', 6)]),
      ([55], True, [(''Standard'', 7)])] = 7 \<and>
   list_all (\<lambda>(t, l, r). str_strip t \<noteq> []) [([49], True, [(''Standard'', 1)]),
      ([50], True, [(''Standard'', 2)]),
      ([51], True, [(''Standard'', 3)]),
      ([52], True, [(''Standard'', 4)]),
      ([53], True, [(''Standard'', 5)]),
      ([54], True, [(''Standard'', 6)]),
      ([55], True, [(''Standard'', 7)])] \<and>
   length (run_updates [([49], True, [(''Standard'', 1)]),
      ([50], True, [(''Standard'', 2)]),
      ([51], True, [(''Standard'', 3)]),
      ([52], True, [(''Standard'', 4)]),
      ([53], True, [(''Standard'', 5)]),
      ([54], True, [(''Standard'', 6)]),
      ([55], True, [(''Standard'', 7)])] []) = 5 \<and>
   run_updates [([49], True, [(''Standard'', 1)]),
      ([50], True, [(''Standard'', 2)]),
      ([51], True, [(''Standard'', 3)]),
      ([52], True, [(''Standard'', 4)]),
      ([53], True, [(''Standard'', 5)]),
      ([54], True, [(''Standard'', 6)]),
      ([55], True, [(''Standard'', 7)])] [] =
     [\<lparr>entry_text = [55], entry_lang = ''Hebrew'', entry_val = 7\<rparr>,
      \<lparr>entry_text = [54], entry_lang = ''Hebrew'', entry_val = 6\<rparr>,
      \<lparr>entry_text = [53], entry_lang = ''Hebrew'', entry_val = 5\<rparr>,
      \<lparr>entry_text = [52], entry_lang = ''Hebrew'', entry_val = 4\<rparr>,
      \<lparr>entry_text = [51], entry_lang = ''Hebrew'', entry_val = 3\<rparr>]"
proof -
  let ?calls = "[([49], True, [(''Standard'', 1)]),
      ([50], True, [(''Standard'', 2)]),
      ([51], True, [(''Standard'', 3)]),
      ([52], True, [(''Standard'', 4)]),
      ([53], True, [(''Standard'', 5)]),
      ([54], True, [(''Standard'', 6)]),
      ([55], True, [(''Standard'', 7)])]"
  have nb1: "str_strip [49] \<noteq> []"
    by (simp add: str_strip_def isspace_def)
  have len: "length ?calls = 7"
    by simp
  have nb: "\<forall>(t, l, r) \<in> set ?calls. str_strip t \<noteq> []"
    by (simp add: str_strip_def isspace_def)
  note t = history_capped_most_recent_first [of ?calls "[49]" True "[(''Standard'', 1)]" "[]"]
  from t [THEN conjunct2, THEN conjunct1, THEN mp, OF nb1, THEN conjunct1]
  have u: "update_history [49] True [(''Standard'', 1)] [] =
     [\<lparr>entry_text = [49], entry_lang = ''Hebrew'', entry_val = 1\<rparr>]"
    by (simp add: make_entry_def dict_get_def)
  note c = t [THEN conjunct2, THEN conjunct2, THEN conjunct1, THEN mp, OF len, THEN mp, OF nb]
  from c [THEN conjunct2, THEN conjunct1]
  have r: "run_updates ?calls [] =
     [\<lparr>entry_text = [55], entry_lang = ''Hebrew'', entry_val = 7\<rparr>,
      \<lparr>entry_text = [54], entry_lang = ''Hebrew'', entry_val = 6\<rparr>,
      \<lparr>entry_text = [53], entry_lang = ''Hebrew'', entry_val = 5\<rparr>,
      \<lparr>entry_text = [52], entry_lang = ''Hebrew'', entry_val = 4\<rparr>,
      \<lparr>entry_text = [51], entry_lang = ''Hebrew'', entry_val = 3\<rparr>]"
    by (simp add: make_entry_def dict_get_def)
  from nb have "list_all (\<lambda>(t, l, r). str_strip t \<noteq> []) ?calls"
    by (simp only: list_all_iff)
  with nb1 u len c [THEN conjunct1] r show ?thesis
    by (intro conjI)
qed

section \<open>Determinism\<close>

text \<open>
  Each step of the engines returns the state it was given, and reads of it only the
  tables it names.
\<close>

lemma scan_hebrew_st_state: "snd (scan_hebrew_st cs a b g) = g"
  by (induction cs arbitrary: a b) (simp_all split: sum.splits)

lemma scan_hebrew_st_reads:
  "g_HEBREW_VALUES g = g_HEBREW_VALUES g' \<Longrightarrow>
   fst (scan_hebrew_st cs a b g) = fst (scan_hebrew_st cs a b g')"
  by (induction cs arbitrary: a b) (simp_all split: sum.splits)

lemma scan_hebrew_st_pure:
  "g_HEBREW_VALUES g = HEBREW_VALUES \<Longrightarrow> fst (scan_hebrew_st cs a b g) = scan_hebrew cs a b"
  by (induction cs arbitrary: a b) (simp_all split: sum.splits)

lemma compute_hebrew_st_unfold:
  "compute_hebrew_gematria_st nfkd text g =
     ((if text = [] then
        Inr ([(''Standard'', 0), (''Mispar Katan'', 0), (''Letters'', 0), (''Words'', 0)], [])
      else
        (case fst (scan_hebrew_st (chars (nfkd text)) [] [] g) of
           Inl e \<Rightarrow> Inl e
         | Inr (clean_chars, clean_values) \<Rightarrow>
             if clean_chars = [] then
               Inr ([(''Standard'', 0), (''Mispar Katan'', 0), (''Letters'', 0),
                     (''Words'', int (length (str_split text)))], [])
             else
               Inr ([(''Standard'', sum_list clean_values),
                     (''Mispar Katan'', sum_list (map (\<lambda>v. (v - 1) mod 9 + 1) clean_values)),
                     (''Letters'', int (length clean_chars)),
                     (''Words'', int (length (str_split text)))],
                    map (\<lambda>(c, v). \<lparr>he_Letter = c, Value = v, Small = (v - 1) mod 9 + 1\<rparr>)
                        (zip clean_chars clean_values)))), g)"
proof -
  obtain r where r: "scan_hebrew_st (chars (nfkd text)) [] [] g = (r, g)"
    by (metis prod.collapse scan_hebrew_st_state)
  show ?thesis
    unfolding compute_hebrew_gematria_st_def r
    by (simp add: Let_def split: sum.splits prod.splits)
qed

lemma compute_hebrew_st_state: "snd (compute_hebrew_gematria_st nfkd text g) = g"
  by (simp add: compute_hebrew_st_unfold)

lemma compute_hebrew_st_reads:
  "g_HEBREW_VALUES g = g_HEBREW_VALUES g' \<Longrightarrow>
   fst (compute_hebrew_gematria_st nfkd text g) = fst (compute_hebrew_gematria_st nfkd text g')"
  by (simp add: compute_hebrew_st_unfold
        scan_hebrew_st_reads [of g g' "chars (nfkd text)" "[]" "[]"])

lemma compute_hebrew_st_pure:
  "g_HEBREW_VALUES g = HEBREW_VALUES \<Longrightarrow>
   fst (compute_hebrew_gematria_st nfkd text g) = compute_hebrew_gematria nfkd text"
  by (simp add: compute_hebrew_st_unfold compute_hebrew_gematria_def scan_hebrew_st_pure Let_def
        split: sum.splits prod.splits)

lemma english_clean_text_st_state: "snd (english_clean_text_st lower cs g) = g"
  by (induction cs) (auto split: prod.splits)

lemma english_clean_text_st_value:
  "fst (english_clean_text_st lower cs g) =
     map lower (filter (\<lambda>c. dict_contains (g_ENGLISH_ORDINAL g) (lower c)) cs)"
  by (induction cs) (auto split: prod.splits)

lemma sum_items_st_eq: "sum_items_st table cs g = (sum_items (table g) cs, g)"
  by (induction cs) (simp_all split: sum.splits)

lemma english_breakdown_st_state: "snd (english_breakdown_st upper cs g) = g"
  by (induction cs) (auto split: sum.splits prod.splits)

lemma english_breakdown_st_reads:
  "g_ENGLISH_ORDINAL g = g_ENGLISH_ORDINAL g' \<Longrightarrow>
   g_ENGLISH_REDUCTION g = g_ENGLISH_REDUCTION g' \<Longrightarrow>
   g_ENGLISH_REVERSE_ORDINAL g = g_ENGLISH_REVERSE_ORDINAL g' \<Longrightarrow>
   g_ENGLISH_REVERSE_REDUCTION g = g_ENGLISH_REVERSE_REDUCTION g' \<Longrightarrow>
   fst (english_breakdown_st upper cs g) = fst (english_breakdown_st upper cs g')"
  by (induction cs) (auto split: sum.splits prod.splits)

lemma english_breakdown_st_pure:
  "g_ENGLISH_ORDINAL g = ENGLISH_ORDINAL \<Longrightarrow>
   g_ENGLISH_REDUCTION g = ENGLISH_REDUCTION \<Longrightarrow>
   g_ENGLISH_REVERSE_ORDINAL g = ENGLISH_REVERSE_ORDINAL \<Longrightarrow>
   g_ENGLISH_REVERSE_REDUCTION g = ENGLISH_REVERSE_REDUCTION \<Longrightarrow>
   fst (english_breakdown_st upper cs g) = english_breakdown upper cs"
  by (induction cs) (auto split: sum.splits prod.splits)

lemma compute_english_st_unfold:
  "compute_english_gematria_st lower upper text g =
     ((if text = [] then Inr ([], [])
       else
         let clean_text = fst (english_clean_text_st lower (chars text) g)
         in if clean_text = [] then Inr ([], [])
            else
              case sum_items (g_ENGLISH_ORDINAL g) clean_text of Inl e \<Rightarrow> Inl e | Inr ordinal \<Rightarrow>
              case sum_items (g_ENGLISH_REDUCTION g) clean_text of Inl e \<Rightarrow> Inl e | Inr reduction \<Rightarrow>
              case sum_items (g_ENGLISH_REVERSE_ORDINAL g) clean_text of Inl e \<Rightarrow> Inl e | Inr rev_ordinal \<Rightarrow>
              case sum_items (g_ENGLISH_REVERSE_REDUCTION g) clean_text of Inl e \<Rightarrow> Inl e | Inr rev_reduction \<Rightarrow>
              case fst (english_breakdown_st upper clean_text g) of Inl e \<Rightarrow> Inl e | Inr breakdown \<Rightarrow>
                Inr ([(''English Ordinal'', ordinal), (''Full Reduction'', reduction),
                      (''Reverse Ordinal'', rev_ordinal), (''Reverse Reduction'', rev_reduction)],
                     breakdown)), g)"
proof -
  obtain ct where ct: "english_clean_text_st lower (chars text) g = (ct, g)"
    by (metis prod.collapse english_clean_text_st_state)
  obtain bd where bd: "english_breakdown_st upper ct g = (bd, g)"
    by (metis prod.collapse english_breakdown_st_state)
  show ?thesis
    unfolding compute_english_gematria_st_def ct sum_items_st_eq
    by (simp add: bd Let_def split: sum.splits)
qed

lemma compute_english_st_state: "snd (compute_english_gematria_st lower upper text g) = g"
  by (simp add: compute_english_st_unfold)

lemma compute_english_st_reads:
  assumes "g_ENGLISH_ORDINAL g = g_ENGLISH_ORDINAL g'"
    and "g_ENGLISH_REDUCTION g = g_ENGLISH_REDUCTION g'"
    and "g_ENGLISH_REVERSE_ORDINAL g = g_ENGLISH_REVERSE_ORDINAL g'"
    and "g_ENGLISH_REVERSE_REDUCTION g = g_ENGLISH_REVERSE_REDUCTION g'"
  shows "fst (compute_english_gematria_st lower upper text g) =
         fst (compute_english_gematria_st lower upper text g')"
proof -
  have "fst (english_clean_text_st lower (chars text) g) =
        fst (english_clean_text_st lower (chars text) g')"
    by (simp add: english_clean_text_st_value assms)
  moreover have "fst (english_breakdown_st upper cs g) = fst (english_breakdown_st upper cs g')" for cs
    using assms by (rule english_breakdown_st_reads)
  ultimately show ?thesis
    by (simp add: compute_english_st_unfold assms Let_def cong: sum.case_cong)
qed

lemma compute_english_st_pure:
  assumes "g_ENGLISH_ORDINAL g = ENGLISH_ORDINAL"
    and "g_ENGLISH_REDUCTION g = ENGLISH_REDUCTION"
    and "g_ENGLISH_REVERSE_ORDINAL g = ENGLISH_REVERSE_ORDINAL"
    and "g_ENGLISH_REVERSE_REDUCTION g = ENGLISH_REVERSE_REDUCTION"
  shows "fst (compute_english_gematria_st lower upper text g) =
         compute_english_gematria lower upper text"
proof -
  have "fst (english_clean_text_st lower (chars text) g) = english_clean_text lower text"
    by (simp add: english_clean_text_st_value english_clean_text_def assms)
  moreover have "fst (english_breakdown_st upper cs g) = english_breakdown upper cs" for cs
    using assms by (rule english_breakdown_st_pure)
  ultimately show ?thesis
    by (simp add: compute_english_st_unfold compute_english_gematria_def assms Let_def
          cong: sum.case_cong)
qed


lemma calculate_unfold:
  "calculate nfkd lower upper is_hebrew s g =
     (case (if is_hebrew then
              (case fst (compute_hebrew_gematria_st nfkd s g) of
                 Inl e \<Rightarrow> Inl e | Inr (results, bd) \<Rightarrow> Inr (results, Inl bd))
            else
              (case fst (compute_english_gematria_st lower upper s g) of
                 Inl e \<Rightarrow> Inl e | Inr (results, bd) \<Rightarrow> Inr (results, Inr bd)))
      of Inl e \<Rightarrow> (Inl e, g)
       | Inr (results, bd) \<Rightarrow>
           (Inr (results, bd),
            g\<lparr>g_history := update_history s is_hebrew results (g_history g)\<rparr>))"
proof -
  obtain h where h: "compute_hebrew_gematria_st nfkd s g = (h, g)"
    by (metis prod.collapse compute_hebrew_st_state)
  obtain e where e: "compute_english_gematria_st lower upper s g = (e, g)"
    by (metis prod.collapse compute_english_st_state)
  show ?thesis
    unfolding calculate_def h e
    by (simp split: sum.splits prod.splits)
qed

lemma calculate_tables:
  "g_HEBREW_VALUES (snd (calculate nfkd lower upper is_hebrew s g)) = g_HEBREW_VALUES g"
  "g_ENGLISH_ORDINAL (snd (calculate nfkd lower upper is_hebrew s g)) = g_ENGLISH_ORDINAL g"
  "g_ENGLISH_REDUCTION (snd (calculate nfkd lower upper is_hebrew s g)) = g_ENGLISH_REDUCTION g"
  "g_ENGLISH_REVERSE_ORDINAL (snd (calculate nfkd lower upper is_hebrew s g)) =
     g_ENGLISH_REVERSE_ORDINAL g"
  "g_ENGLISH_REVERSE_REDUCTION (snd (calculate nfkd lower upper is_hebrew s g)) =
     g_ENGLISH_REVERSE_REDUCTION g"
  by (simp_all add: calculate_unfold split: sum.splits prod.splits)

lemma calculate_reads:
  assumes "g_HEBREW_VALUES g = g_HEBREW_VALUES g'"
    and "g_ENGLISH_ORDINAL g = g_ENGLISH_ORDINAL g'"
    and "g_ENGLISH_REDUCTION g = g_ENGLISH_REDUCTION g'"
    and "g_ENGLISH_REVERSE_ORDINAL g = g_ENGLISH_REVERSE_ORDINAL g'"
    and "g_ENGLISH_REVERSE_REDUCTION g = g_ENGLISH_REVERSE_REDUCTION g'"
  shows "fst (calculate nfkd lower upper is_hebrew s g) =
         fst (calculate nfkd lower upper is_hebrew s g')"
proof -
  have h: "fst (compute_hebrew_gematria_st nfkd s g) = fst (compute_hebrew_gematria_st nfkd s g')"
    using assms(1) by (rule compute_hebrew_st_reads)
  have e: "fst (compute_english_gematria_st lower upper s g) =
           fst (compute_english_gematria_st lower upper s g')"
    using assms(2-5) by (rule compute_english_st_reads)
  show ?thesis
    unfolding calculate_unfold h e
    by (simp split: sum.splits prod.splits)
qed

lemma calculate_twice:
  "fst (calculate nfkd lower upper is_hebrew s (snd (calculate nfkd lower upper is_hebrew s g))) =
   fst (calculate nfkd lower upper is_hebrew s g)"
  by (rule calculate_reads) (simp_all only: calculate_tables)

text \<open>
  Claim C9.  Run with the module's state passed in and out, each engine returns the
  state it was given: it assigns no global and mutates no table.  Its result is read
  from the text and from its own tables only: two states that hold the same Hebrew
  table give the same Hebrew result, two states that hold the same four English tables
  the same English result, whatever the log and the other tables are.  Hence a second
  call with the same input, in the state the first call has left, returns identical
  totals and an identical breakdown; and so do two presses of Calculate, between which
  the log does change.  In every state whose tables are the ones the script assigns, the
  results are those of \<open>compute_hebrew_gematria\<close> and \<open>compute_english_gematria\<close>.
\<close>

theorem same_input_same_result:
  "snd (compute_hebrew_gematria_st nfkd s g) = g \<and>
   snd (compute_english_gematria_st lower upper s g) = g \<and>
   fst (compute_hebrew_gematria_st nfkd s (snd (compute_hebrew_gematria_st nfkd s g))) =
     fst (compute_hebrew_gematria_st nfkd s g) \<and>
   fst (compute_english_gematria_st lower upper s (snd (compute_english_gematria_st lower upper s g))) =
     fst (compute_english_gematria_st lower upper s g) \<and>
   (g_HEBREW_VALUES g = g_HEBREW_VALUES g' \<longrightarrow>
      fst (compute_hebrew_gematria_st nfkd s g) = fst (compute_hebrew_gematria_st nfkd s g')) \<and>
   (g_ENGLISH_ORDINAL g = g_ENGLISH_ORDINAL g' \<longrightarrow>
    g_ENGLISH_REDUCTION g = g_ENGLISH_REDUCTION g' \<longrightarrow>
    g_ENGLISH_REVERSE_ORDINAL g = g_ENGLISH_REVERSE_ORDINAL g' \<longrightarrow>
    g_ENGLISH_REVERSE_REDUCTION g = g_ENGLISH_REVERSE_REDUCTION g' \<longrightarrow>
      fst (compute_english_gematria_st lower upper s g) =
      fst (compute_english_gematria_st lower upper s g')) \<and>
   fst (calculate nfkd lower upper is_hebrew s (snd (calculate nfkd lower upper is_hebrew s g))) =
     fst (calculate nfkd lower upper is_hebrew s g) \<and>
   (g_HEBREW_VALUES g = HEBREW_VALUES \<longrightarrow>
      fst (compute_hebrew_gematria_st nfkd s g) = compute_hebrew_gematria nfkd s) \<and>
   (g_ENGLISH_ORDINAL g = ENGLISH_ORDINAL \<longrightarrow>
    g_ENGLISH_REDUCTION g = ENGLISH_REDUCTION \<longrightarrow>
    g_ENGLISH_REVERSE_ORDINAL g = ENGLISH_REVERSE_ORDINAL \<longrightarrow>
    g_ENGLISH_REVERSE_REDUCTION g = ENGLISH_REVERSE_REDUCTION \<longrightarrow>
      fst (compute_english_gematria_st lower upper s g) = compute_english_gematria lower upper s)"
proof (intro conjI impI)
  show "snd (compute_hebrew_gematria_st nfkd s g) = g"
    by (rule compute_hebrew_st_state)
  show "snd (compute_english_gematria_st lower upper s g) = g"
    by (rule compute_english_st_state)
  show "fst (compute_hebrew_gematria_st nfkd s (snd (compute_hebrew_gematria_st nfkd s g))) =
     fst (compute_hebrew_gematria_st nfkd s g)"
    by (simp only: compute_hebrew_st_state)
  show "fst (compute_english_gematria_st lower upper s (snd (compute_english_gematria_st lower upper s g))) =
     fst (compute_english_gematria_st lower upper s g)"
    by (simp only: compute_english_st_state)
  show "fst (calculate nfkd lower upper is_hebrew s (snd (calculate nfkd lower upper is_hebrew s g))) =
     fst (calculate nfkd lower upper is_hebrew s g)"
    by (rule calculate_twice)
next
  assume "g_HEBREW_VALUES g = g_HEBREW_VALUES g'"
  then show "fst (compute_hebrew_gematria_st nfkd s g) = fst (compute_hebrew_gematria_st nfkd s g')"
    by (rule compute_hebrew_st_reads)
next
  assume "g_ENGLISH_ORDINAL g = g_ENGLISH_ORDINAL g'"
    "g_ENGLISH_REDUCTION g = g_ENGLISH_REDUCTION g'"
    "g_ENGLISH_REVERSE_ORDINAL g = g_ENGLISH_REVERSE_ORDINAL g'"
    "g_ENGLISH_REVERSE_REDUCTION g = g_ENGLISH_REVERSE_REDUCTION g'"
  then show "fst (compute_english_gematria_st lower upper s g) =
      fst (compute_english_gematria_st lower upper s g')"
    by (rule compute_english_st_reads)
next
  assume "g_HEBREW_VALUES g = HEBREW_VALUES"
  then show "fst (compute_hebrew_gematria_st nfkd s g) = compute_hebrew_gematria nfkd s"
    by (rule compute_hebrew_st_pure)
next
  assume "g_ENGLISH_ORDINAL g = ENGLISH_ORDINAL" "g_ENGLISH_REDUCTION g = ENGLISH_REDUCTION"
    "g_ENGLISH_REVERSE_ORDINAL g = ENGLISH_REVERSE_ORDINAL"
    "g_ENGLISH_REVERSE_REDUCTION g = ENGLISH_REVERSE_REDUCTION"
  then show "fst (compute_english_gematria_st lower upper s g) = compute_english_gematria lower upper s"
    by (rule compute_english_st_pure)
qed

theorem same_input_same_result_witness:
  "g_HEBREW_VALUES initial_state = HEBREW_VALUES \<and>
   g_HEBREW_VALUES initial_state = g_HEBREW_VALUES (initial_state\<lparr>g_history := [], g_ENGLISH_ORDINAL := []\<rparr>) \<and>
   compute_hebrew_gematria_st py_nfkd [0x5D0, 0x5D1] initial_state =
     (Inr ([(''Standard'', 3), (''Mispar Katan'', 3), (''Letters'', 2), (''Words'', 1)],
           [\<lparr>he_Letter = [0x5D0], Value = 1, Small = 1\<rparr>,
            \<lparr>he_Letter = [0x5D1], Value = 2, Small = 2\<rparr>]), initial_state) \<and>
   fst (compute_hebrew_gematria_st py_nfkd [0x5D0, 0x5D1]
          (initial_state\<lparr>g_history := [], g_ENGLISH_ORDINAL := []\<rparr>)) =
     Inr ([(''Standard'', 3), (''Mispar Katan'', 3), (''Letters'', 2), (''Words'', 1)],
           [\<lparr>he_Letter = [0x5D0], Value = 1, Small = 1\<rparr>,
            \<lparr>he_Letter = [0x5D1], Value = 2, Small = 2\<rparr>]) \<and>
   g_history (snd (calculate py_nfkd py_lower py_upper True [0x5D0, 0x5D1] initial_state)) =
     [\<lparr>entry_text = [0x5D0, 0x5D1], entry_lang = ''Hebrew'', entry_val = 3\<rparr>] \<and>
   fst (calculate py_nfkd py_lower py_upper True [0x5D0, 0x5D1]
          (snd (calculate py_nfkd py_lower py_upper True [0x5D0, 0x5D1] initial_state))) =
     Inr ([(''Standard'', 3), (''Mispar Katan'', 3), (''Letters'', 2), (''Words'', 1)],
          Inl [\<lparr>he_Letter = [0x5D0], Value = 1, Small = 1\<rparr>,
               \<lparr>he_Letter = [0x5D1], Value = 2, Small = 2\<rparr>])"
proof -
  let ?g' = "initial_state\<lparr>g_history := [], g_ENGLISH_ORDINAL := []\<rparr>"
  let ?r = "Inr ([(''Standard'', 3), (''Mispar Katan'', 3), (''Letters'', 2), (''Words'', 1)],
           [\<lparr>he_Letter = [0x5D0], Value = 1, Small = 1\<rparr>,
            \<lparr>he_Letter = [0x5D1], Value = 2, Small = 2\<rparr>]) :: py_error + (totals \<times> hebrew_row list)"
  note t = same_input_same_result [where nfkd = py_nfkd and lower = py_lower and upper = py_upper
      and s = "[0x5D0, 0x5D1]" and g = initial_state and g' = ?g' and is_hebrew = True]
  have h1: "g_HEBREW_VALUES initial_state = HEBREW_VALUES"
    by (simp add: initial_state_def)
  have h2: "g_HEBREW_VALUES initial_state = g_HEBREW_VALUES ?g'"
    by simp
  have c: "compute_hebrew_gematria py_nfkd [0x5D0, 0x5D1] = ?r"
    by (simp add: compute_hebrew_gematria_def py_nfkd_def decompose_def chars_def dict_contains_def
          dict_getitem_def HEBREW_VALUES_def str_split_def isspace_def)
  have s: "snd (compute_hebrew_gematria_st py_nfkd [0x5D0, 0x5D1] initial_state) = initial_state"
    using t by (rule conjunct1)
  have p: "fst (compute_hebrew_gematria_st py_nfkd [0x5D0, 0x5D1] initial_state) =
           compute_hebrew_gematria py_nfkd [0x5D0, 0x5D1]"
    using t h1 by blast
  from s p c have e1: "compute_hebrew_gematria_st py_nfkd [0x5D0, 0x5D1] initial_state =
      (?r, initial_state)"
    by (metis prod.collapse)
  have "fst (compute_hebrew_gematria_st py_nfkd [0x5D0, 0x5D1] initial_state) =
        fst (compute_hebrew_gematria_st py_nfkd [0x5D0, 0x5D1] ?g')"
    using t h2 by blast
  with e1 have e2: "fst (compute_hebrew_gematria_st py_nfkd [0x5D0, 0x5D1] ?g') = ?r"
    by simp
  have first: "calculate py_nfkd py_lower py_upper True [0x5D0, 0x5D1] initial_state =
      (Inr ([(''Standard'', 3), (''Mispar Katan'', 3), (''Letters'', 2), (''Words'', 1)],
          Inl [\<lparr>he_Letter = [0x5D0], Value = 1, Small = 1\<rparr>,
               \<lparr>he_Letter = [0x5D1], Value = 2, Small = 2\<rparr>]),
       initial_state\<lparr>g_history :=
          [\<lparr>entry_text = [0x5D0, 0x5D1], entry_lang = ''Hebrew'', entry_val = 3\<rparr>]\<rparr>)"
    unfolding calculate_def e1
    by (simp add: update_history_def make_entry_def dict_get_def str_strip_def isspace_def
          initial_state_def)
  have e3: "g_history (snd (calculate py_nfkd py_lower py_upper True [0x5D0, 0x5D1] initial_state)) =
     [\<lparr>entry_text = [0x5D0, 0x5D1], entry_lang = ''Hebrew'', entry_val = 3\<rparr>]"
    unfolding first by simp
  have "fst (calculate py_nfkd py_lower py_upper True [0x5D0, 0x5D1]
          (snd (calculate py_nfkd py_lower py_upper True [0x5D0, 0x5D1] initial_state))) =
        fst (calculate py_nfkd py_lower py_upper True [0x5D0, 0x5D1] initial_state)"
    using t by blast
  also have "\<dots> = Inr ([(''Standard'', 3), (''Mispar Katan'', 3), (''Letters'', 2), (''Words'', 1)],
          Inl [\<lparr>he_Letter = [0x5D0], Value = 1, Small = 1\<rparr>,
               \<lparr>he_Letter = [0x5D1], Value = 2, Small = 2\<rparr>])"
    unfolding first by simp
  finally have e4: "fst (calculate py_nfkd py_lower py_upper True [0x5D0, 0x5D1]
          (snd (calculate py_nfkd py_lower py_upper True [0x5D0, 0x5D1] initial_state))) =
     Inr ([(''Standard'', 3), (''Mispar Katan'', 3), (''Letters'', 2), (''Words'', 1)],
          Inl [\<lparr>he_Letter = [0x5D0], Value = 1, Small = 1\<rparr>,
               \<lparr>he_Letter = [0x5D1], Value = 2, Small = 2\<rparr>])" .
  from h1 h2 e1 e2 e3 e4 show ?thesis
    by (intro conjI)
qed

end
